theory Spec2Isabelle
  imports Complex_Main "HOL-Library.Word" "HOL-Library.Monad_Syntax"
begin

section \<open>Data model of the license decoder\<close>

text \<open>
  The development embeds \<^verbatim>\<open>SankeyDecoder.cpp\<close> and \<^verbatim>\<open>SankeyDecoder.h\<close>.
  The code is Windows-only (it includes \<^verbatim>\<open>windows.h\<close> and \<^verbatim>\<open>wincrypt.h\<close> and calls
  \<^verbatim>\<open>_mkgmtime\<close>), so \<^verbatim>\<open>long\<close> and \<^verbatim>\<open>int\<close> are 32-bit two's complement values
  and \<^verbatim>\<open>time_t\<close> is a 64-bit value, modelled as an \<open>int\<close>.
  A \<^verbatim>\<open>const char*\<close> argument is a \<open>string option\<close>: \<open>None\<close> is the null pointer and
  \<open>Some s\<close> the characters before the terminating zero.
\<close>

type_synonym byte = "8 word"
type_synonym bytes = "byte list"
type_synonym long = "32 word"
type_synonym cint = "32 word"
type_synonym time_t = int

datatype LicenseStatus =
  Valid | Expired | Invalid | Tampered | KeyError | DecryptionFailed | ParseError

text \<open>
  The values of \<^verbatim>\<open>nlohmann::json\<close> that parsing a text can produce. An object is a list of
  key and value pairs read with \<open>map_of\<close>. A finite \<^verbatim>\<open>double\<close> is the real number it
  denotes; comparing it with zero is exact.
\<close>

datatype json =
  JNull
| JBool bool
| JInt int
| JUInt nat
| JFloat real
| JString string
| JArray "json list"
| JObject "(string \<times> json) list"

text \<open>The members \<^verbatim>\<open>payload_\<close>, \<^verbatim>\<open>isVerified_\<close> and \<^verbatim>\<open>lastStringResult_\<close> of the class.\<close>

record decoder =
  payload :: json
  isVerified :: bool
  lastStringResult :: string

text \<open>The constructor: a default \<^verbatim>\<open>json\<close> is null, and \<^verbatim>\<open>isVerified_(false)\<close>.\<close>

definition Create :: decoder where
  "Create = \<lparr>payload = JNull, isVerified = False, lastStringResult = []\<rparr>"

subsection \<open>The operations of the JSON value the code calls\<close>

text \<open>\<^verbatim>\<open>clear()\<close> keeps the type of the value and empties its content.\<close>

fun json_clear :: "json \<Rightarrow> json" where
  "json_clear JNull = JNull"
| "json_clear (JBool b) = JBool False"
| "json_clear (JInt i) = JInt 0"
| "json_clear (JUInt n) = JUInt 0"
| "json_clear (JFloat r) = JFloat 0"
| "json_clear (JString s) = JString []"
| "json_clear (JArray xs) = JArray []"
| "json_clear (JObject kvs) = JObject []"

text \<open>\<^verbatim>\<open>contains(key)\<close> is false on every value that is not an object.\<close>

fun json_contains :: "json \<Rightarrow> string \<Rightarrow> bool" where
  "json_contains (JObject kvs) k = (map_of kvs k \<noteq> None)"
| "json_contains _ k = False"

text \<open>\<^verbatim>\<open>payload_[key]\<close>; the code reads it only after \<^verbatim>\<open>contains(key)\<close> held.\<close>

fun json_at :: "json \<Rightarrow> string \<Rightarrow> json" where
  "json_at (JObject kvs) k = (case map_of kvs k of Some v \<Rightarrow> v | None \<Rightarrow> JNull)"
| "json_at _ k = JNull"

fun is_string :: "json \<Rightarrow> bool" where
  "is_string (JString s) = True"
| "is_string _ = False"

section \<open>The external collaborators\<close>

text \<open>
  The CryptoAPI calls, the JSON parser, the clock and the numeric conversions of the C++
  library are not code of the repository. They are the fields of a \<open>platform\<close>, and every
  theorem on \<open>verify\<close> holds for every platform. \<open>crypt_base64\<close> is
  \<^verbatim>\<open>CryptStringToBinaryA\<close> with \<^verbatim>\<open>CRYPT_STRING_BASE64\<close>; \<open>crypt_hmac\<close> is the hash value that
  \<^verbatim>\<open>CryptGetHashParam\<close> delivers for a key and a message, \<open>None\<close> when a call of the
  sequence failed; \<open>crypt_aes\<close> is \<^verbatim>\<open>CryptDecrypt\<close> under a key and an IV; \<open>json_parse\<close>
  is \<^verbatim>\<open>nlohmann::json::parse\<close>, \<open>None\<close> when it throws; \<open>time_now\<close> is \<^verbatim>\<open>time(nullptr)\<close>;
  \<open>stoi\<close> and \<open>stod\<close> are \<open>None\<close> when the C++ functions throw.
\<close>

record platform =
  crypt_base64 :: "string \<Rightarrow> bytes option"
  crypt_hmac :: "bytes \<Rightarrow> bytes \<Rightarrow> bytes option"
  crypt_aes :: "bytes \<Rightarrow> bytes \<Rightarrow> bytes \<Rightarrow> bytes option"
  json_parse :: "bytes \<Rightarrow> json option"
  time_now :: time_t
  stoi :: "string \<Rightarrow> cint option"
  stod :: "string \<Rightarrow> real option"
  double_of_int :: "int \<Rightarrow> real"

definition base64_decode :: "platform \<Rightarrow> string \<Rightarrow> bytes option" where
  "base64_decode P s = crypt_base64 P s"

text \<open>
  \<^verbatim>\<open>mac.resize(32)\<close> gives a buffer of 32 zero bytes, and the hash value is written at
  its start: the result always has 32 bytes.
\<close>

definition hmac_sha256 :: "platform \<Rightarrow> bytes \<Rightarrow> bytes \<Rightarrow> bytes option" where
  "hmac_sha256 P key data =
     map_option (\<lambda>h. take 32 (h @ replicate (32 - length h) 0)) (crypt_hmac P key data)"

definition aes_cbc_decrypt :: "platform \<Rightarrow> bytes \<Rightarrow> bytes \<Rightarrow> bytes \<Rightarrow> bytes option" where
  "aes_cbc_decrypt P key iv cipher = crypt_aes P key iv cipher"

section \<open>The date parser\<close>

text \<open>
  \<^verbatim>\<open>ss >> std::get_time(&tm, "%Y-%m-%dT%H:%M:%S")\<close> is a formatted extraction: it first
  skips the white space at the start of the string (the characters of \<^verbatim>\<open>isspace\<close>) and
  fails when nothing is left. The fields then follow the conversions of POSIX
  \<^verbatim>\<open>strptime\<close>: a number is one or more digits, as many as the field allows, and has to lie
  in the range of the field; a character of the format has to be the next character of the
  input (letters compared without case). Reading stops where the format ends: \<open>get_time\<close>
  returns the rest of the input, which \<^verbatim>\<open>parseISODateTime\<close> never looks at.
\<close>

record tm =
  tm_sec :: int
  tm_min :: int
  tm_hour :: int
  tm_mday :: int
  tm_mon :: int
  tm_year :: int

definition is_space :: "char \<Rightarrow> bool" where
  "is_space c = (c \<in> set [CHR '' '', CHR 0x09, CHR 0x0A, CHR 0x0B, CHR 0x0C, CHR 0x0D])"

definition is_digit :: "char \<Rightarrow> bool" where
  "is_digit c = (48 \<le> (of_char c :: nat) \<and> (of_char c :: nat) \<le> 57)"

fun span_digits :: "nat \<Rightarrow> string \<Rightarrow> string \<times> string" where
  "span_digits 0 s = ([], s)"
| "span_digits (Suc n) [] = ([], [])"
| "span_digits (Suc n) (c # cs) =
     (if is_digit c then (case span_digits n cs of (ds, r) \<Rightarrow> (c # ds, r)) else ([], c # cs))"

definition digits_value :: "string \<Rightarrow> int" where
  "digits_value ds = foldl (\<lambda>a c. 10 * a + (int (of_char c) - 48)) 0 ds"

definition get_num :: "nat \<Rightarrow> int \<Rightarrow> int \<Rightarrow> string \<Rightarrow> (int \<times> string) option" where
  "get_num width lo hi s =
     (case span_digits width s of
        (ds, r) \<Rightarrow>
          if ds = [] then None
          else if lo \<le> digits_value ds \<and> digits_value ds \<le> hi then Some (digits_value ds, r)
          else None)"

definition get_lit :: "char list \<Rightarrow> string \<Rightarrow> string option" where
  "get_lit accepted s =
     (case s of [] \<Rightarrow> None | c # r \<Rightarrow> if c \<in> set accepted then Some r else None)"

definition get_time :: "string \<Rightarrow> (tm \<times> string) option" where
  "get_time s = do {
     (y, s1) \<leftarrow> get_num 4 0 9999 (dropWhile is_space s);
     s2 \<leftarrow> get_lit [CHR ''-''] s1;
     (m, s3) \<leftarrow> get_num 2 1 12 s2;
     s4 \<leftarrow> get_lit [CHR ''-''] s3;
     (d, s5) \<leftarrow> get_num 2 1 31 s4;
     s6 \<leftarrow> get_lit [CHR ''T'', CHR ''t''] s5;
     (h, s7) \<leftarrow> get_num 2 0 23 s6;
     s8 \<leftarrow> get_lit [CHR '':''] s7;
     (mi, s9) \<leftarrow> get_num 2 0 59 s8;
     s10 \<leftarrow> get_lit [CHR '':''] s9;
     (sec, s11) \<leftarrow> get_num 2 0 60 s10;
     Some (\<lparr>tm_sec = sec, tm_min = mi, tm_hour = h, tm_mday = d, tm_mon = m - 1,
            tm_year = y - 1900\<rparr>, s11)
   }"

text \<open>Days from 1970-01-01 to the given day of the proleptic Gregorian calendar.\<close>

definition days_from_civil :: "int \<Rightarrow> int \<Rightarrow> int \<Rightarrow> int" where
  "days_from_civil y m d =
     (let y' = (if m \<le> 2 then y - 1 else y);
          era = y' div 400;
          yoe = y' - era * 400;
          doy = (153 * (if 2 < m then m - 3 else m + 9) + 2) div 5 + d - 1;
          doe = yoe * 365 + yoe div 4 - yoe div 100 + doy
      in era * 146097 + doe - 719468)"

text \<open>
  \<^verbatim>\<open>_mkgmtime\<close> reads the fields as UTC. Its documented range is from 1970-01-01T00:00:00 to
  3000-12-31T23:59:59; outside of it the result is \<open>-1\<close>.
\<close>

definition mkgmtime :: "tm \<Rightarrow> time_t" where
  "mkgmtime t =
     (let y = tm_year t + 1900 + tm_mon t div 12;
          m = tm_mon t mod 12 + 1;
          secs = (days_from_civil y m 1 + (tm_mday t - 1)) * 86400
                 + tm_hour t * 3600 + tm_min t * 60 + tm_sec t
      in if secs < 0 \<or> 32535215999 < secs then - 1 else secs)"

text \<open>\<^verbatim>\<open>static_cast<long>(timestamp)\<close> keeps the low 32 bits.\<close>

definition parseISODateTime :: "string \<Rightarrow> long" where
  "parseISODateTime isoString =
     (case get_time isoString of
        None \<Rightarrow> 0
      | Some (t, rest) \<Rightarrow> word_of_int (mkgmtime t))"





section \<open>The verifier\<close>

text \<open>
  \<open>verify\<close> returns the status, the decoder after the call, and the calls it made to its
  collaborators, in the order of the source text. \<open>Memcmp mac hmac\<close> is the comparison of the
  computed tag with the stored one.
\<close>

datatype call =
  Base64Decode string
| HmacSha256 bytes bytes
| Memcmp bytes bytes
| AesCbcDecrypt bytes bytes bytes
| JsonParse bytes
| ParseDate string
| ReadClock

text \<open>The conversion of a JSON string to \<^verbatim>\<open>std::string\<close>; the code converts only after
  \<^verbatim>\<open>is_string()\<close> held.\<close>

fun get_string :: "json \<Rightarrow> string" where
  "get_string (JString s) = s"
| "get_string _ = []"

definition byte_of_char :: "char \<Rightarrow> byte" where
  "byte_of_char c = of_char c"

definition verify ::
  "platform \<Rightarrow> decoder \<Rightarrow> string option \<Rightarrow> string option \<Rightarrow> string option
     \<Rightarrow> LicenseStatus \<times> decoder \<times> call list" where
  "verify P d0 masterKeyB64 licenseB64 accountId =
     (let d = d0\<lparr>isVerified := False, payload := json_clear (payload d0)\<rparr> in
      case masterKeyB64 of None \<Rightarrow> (Invalid, d, []) | Some mk \<Rightarrow>
      case licenseB64 of None \<Rightarrow> (Invalid, d, []) | Some lic \<Rightarrow>
      case accountId of None \<Rightarrow> (Invalid, d, []) | Some acc \<Rightarrow>
      let t1 = [Base64Decode mk] in
      case base64_decode P mk of None \<Rightarrow> (KeyError, d, t1) | Some masterKey \<Rightarrow>
      if length masterKey \<noteq> 32 then (KeyError, d, t1) else
      let t2 = t1 @ [Base64Decode lic] in
      case base64_decode P lic of None \<Rightarrow> (Invalid, d, t2) | Some licenseBin \<Rightarrow>
      if length licenseBin < 48 then (Invalid, d, t2) else
      let iv = take 16 licenseBin;
          hmac = take 32 (drop 16 licenseBin);
          cipher = drop 48 licenseBin;
          hmacInput = iv @ cipher @ map byte_of_char acc;
          t3 = t2 @ [HmacSha256 masterKey hmacInput] in
      case hmac_sha256 P masterKey hmacInput of None \<Rightarrow> (DecryptionFailed, d, t3) | Some mac \<Rightarrow>
      let t4 = t3 @ [Memcmp mac hmac] in
      if mac \<noteq> hmac then (Tampered, d, t4) else
      let t5 = t4 @ [AesCbcDecrypt masterKey iv cipher] in
      case aes_cbc_decrypt P masterKey iv cipher of None \<Rightarrow> (DecryptionFailed, d, t5) | Some plain \<Rightarrow>
      let t6 = t5 @ [JsonParse plain] in
      case json_parse P plain of None \<Rightarrow> (ParseError, d, t6) | Some j \<Rightarrow>
      let d1 = d\<lparr>payload := j\<rparr> in
      if json_contains (payload d1) ''expiry'' \<and> is_string (json_at (payload d1) ''expiry'') then
        let expiryStr = get_string (json_at (payload d1) ''expiry'');
            expiryTimestamp = parseISODateTime expiryStr;
            t7 = t6 @ [ParseDate expiryStr] in
        if 0 <s expiryTimestamp then
          let currentTime = time_now P;
              t8 = t7 @ [ReadClock] in
          if sint expiryTimestamp < currentTime then (Expired, d1, t8)
          else (Valid, d1\<lparr>isVerified := True\<rparr>, t8)
        else (Valid, d1\<lparr>isVerified := True\<rparr>, t7)
      else (Valid, d1\<lparr>isVerified := True\<rparr>, t6))"

definition verify_status ::
  "platform \<Rightarrow> decoder \<Rightarrow> string option \<Rightarrow> string option \<Rightarrow> string option \<Rightarrow> LicenseStatus" where
  "verify_status P d0 mk lic acc = fst (verify P d0 mk lic acc)"

definition verify_decoder ::
  "platform \<Rightarrow> decoder \<Rightarrow> string option \<Rightarrow> string option \<Rightarrow> string option \<Rightarrow> decoder" where
  "verify_decoder P d0 mk lic acc = fst (snd (verify P d0 mk lic acc))"

definition verify_calls ::
  "platform \<Rightarrow> decoder \<Rightarrow> string option \<Rightarrow> string option \<Rightarrow> string option \<Rightarrow> call list" where
  "verify_calls P d0 mk lic acc = snd (snd (verify P d0 mk lic acc))"

text \<open>
  The last step of \<open>verify\<close> in one place: \<open>expiry_passed\<close> is the test under which the
  code returns \<^verbatim>\<open>Expired\<close>, and \<open>expiry_calls\<close> are the calls the step makes. Both are
  read off the definition of \<open>verify\<close> and are related to it by lemma \<open>verify_after_mac\<close>.
\<close>

definition expiry_calls :: "platform \<Rightarrow> json \<Rightarrow> call list" where
  "expiry_calls P j =
     (if json_contains j ''expiry'' \<and> is_string (json_at j ''expiry'') then
        ParseDate (get_string (json_at j ''expiry'')) #
          (if 0 <s parseISODateTime (get_string (json_at j ''expiry'')) then [ReadClock] else [])
      else [])"

definition expiry_passed :: "platform \<Rightarrow> json \<Rightarrow> bool" where
  "expiry_passed P j =
     (json_contains j ''expiry'' \<and> is_string (json_at j ''expiry'')
      \<and> 0 <s parseISODateTime (get_string (json_at j ''expiry''))
      \<and> sint (parseISODateTime (get_string (json_at j ''expiry''))) < time_now P)"


section \<open>The payload accessors\<close>

fun is_boolean :: "json \<Rightarrow> bool" where
  "is_boolean (JBool b) = True"
| "is_boolean _ = False"

fun is_number_integer :: "json \<Rightarrow> bool" where
  "is_number_integer (JInt i) = True"
| "is_number_integer (JUInt n) = True"
| "is_number_integer _ = False"

fun is_number :: "json \<Rightarrow> bool" where
  "is_number (JInt i) = True"
| "is_number (JUInt n) = True"
| "is_number (JFloat r) = True"
| "is_number _ = False"

fun get_bool :: "json \<Rightarrow> bool" where
  "get_bool (JBool b) = b"
| "get_bool _ = False"

text \<open>The conversion of an integer number to \<^verbatim>\<open>int\<close> keeps the low 32 bits.\<close>

fun get_cint :: "json \<Rightarrow> cint" where
  "get_cint (JInt i) = word_of_int i"
| "get_cint (JUInt n) = word_of_nat n"
| "get_cint _ = 0"

fun get_double :: "platform \<Rightarrow> json \<Rightarrow> real" where
  "get_double P (JInt i) = double_of_int P i"
| "get_double P (JUInt n) = double_of_int P (int n)"
| "get_double P (JFloat r) = r"
| "get_double P _ = 0"

text \<open>\<^verbatim>\<open>payload_[key] != 0\<close> on a number.\<close>

fun differs_from_zero :: "json \<Rightarrow> bool" where
  "differs_from_zero (JInt i) = (i \<noteq> 0)"
| "differs_from_zero (JUInt n) = (n \<noteq> 0)"
| "differs_from_zero (JFloat r) = (r \<noteq> 0)"
| "differs_from_zero _ = True"

text \<open>\<^verbatim>\<open>std::string(defaultValue ? defaultValue : "")\<close>\<close>

definition default_string :: "string option \<Rightarrow> string" where
  "default_string defaultValue = (case defaultValue of Some s \<Rightarrow> s | None \<Rightarrow> [])"

definition getValue :: "decoder \<Rightarrow> string option \<Rightarrow> string option \<Rightarrow> string" where
  "getValue d key defaultValue =
     (if \<not> isVerified d \<or> key = None then default_string defaultValue
      else if json_contains (payload d) (the key) \<and> is_string (json_at (payload d) (the key))
        then get_string (json_at (payload d) (the key))
      else default_string defaultValue)"

definition getValueAsInt :: "platform \<Rightarrow> decoder \<Rightarrow> string option \<Rightarrow> cint \<Rightarrow> cint" where
  "getValueAsInt P d key defaultValue =
     (if \<not> isVerified d \<or> key = None then defaultValue
      else if json_contains (payload d) (the key) then
        if is_number_integer (json_at (payload d) (the key))
          then get_cint (json_at (payload d) (the key))
        else if is_string (json_at (payload d) (the key)) then
          (case stoi P (get_string (json_at (payload d) (the key))) of
             Some v \<Rightarrow> v
           | None \<Rightarrow> defaultValue)
        else defaultValue
      else defaultValue)"

definition getValueAsBool :: "decoder \<Rightarrow> string option \<Rightarrow> bool \<Rightarrow> bool" where
  "getValueAsBool d key defaultValue =
     (if \<not> isVerified d \<or> key = None then defaultValue
      else if json_contains (payload d) (the key) then
        if is_boolean (json_at (payload d) (the key))
          then get_bool (json_at (payload d) (the key))
        else if is_string (json_at (payload d) (the key)) then
          (let str = get_string (json_at (payload d) (the key))
           in str = ''true'' \<or> str = ''1'' \<or> str = ''yes'')
        else if is_number (json_at (payload d) (the key))
          then differs_from_zero (json_at (payload d) (the key))
        else defaultValue
      else defaultValue)"

definition getValueAsDouble :: "platform \<Rightarrow> decoder \<Rightarrow> string option \<Rightarrow> real \<Rightarrow> real" where
  "getValueAsDouble P d key defaultValue =
     (if \<not> isVerified d \<or> key = None then defaultValue
      else if json_contains (payload d) (the key) then
        if is_number (json_at (payload d) (the key))
          then get_double P (json_at (payload d) (the key))
        else if is_string (json_at (payload d) (the key)) then
          (case stod P (get_string (json_at (payload d) (the key))) of
             Some v \<Rightarrow> v
           | None \<Rightarrow> defaultValue)
        else defaultValue
      else defaultValue)"

definition getValueAsDateTime :: "decoder \<Rightarrow> string option \<Rightarrow> long \<Rightarrow> long" where
  "getValueAsDateTime d key defaultValue =
     (if \<not> isVerified d \<or> key = None then defaultValue
      else if json_contains (payload d) (the key) \<and> is_string (json_at (payload d) (the key)) then
        (let dateStr = get_string (json_at (payload d) (the key));
             timestamp = parseISODateTime dateStr
         in if 0 <s timestamp then timestamp else defaultValue)
      else defaultValue)"

definition hasKey :: "decoder \<Rightarrow> string option \<Rightarrow> bool" where
  "hasKey d key =
     (if \<not> isVerified d \<or> key = None then False
      else json_contains (payload d) (the key))"

section \<open>A recorded provider\<close>

text \<open>
  The theorems below hold for every platform. To run them on concrete inputs,
  \<open>recorded_platform\<close> answers the calls of three licenses with the values the real
  primitives give (base64, HMAC-SHA-256 and AES-256-CBC with PKCS#7 padding) and fails on
  every other argument. The master key \<open>key0\<close> is 32 zero bytes, \<open>key1\<close> is 32 bytes of
  value 1, the IV is 16 zero bytes, and each license is bound to the account id 1234.
  License A carries the expiry 2030-01-01T00:00:00Z, license C the expiry
  1970-01-01T00:00:00Z, and license D has no expiry field.
\<close>

definition key0_b64 :: string where
  "key0_b64 = ''AAAAAAAAAAAAAAAAAAAAAAAAAAAAAAAAAAAAAAAAAAA=''"

definition key1_b64 :: string where
  "key1_b64 = ''AQEBAQEBAQEBAQEBAQEBAQEBAQEBAQEBAQEBAQEBAQE=''"

definition short_b64 :: string where
  "short_b64 = ''AAAAAAAAAAAAAAAAAAAAAAAAAAAAAAAAAAAAAAAAAAAAAAAAAAAAAA==''"

definition key0 :: bytes where
  "key0 = replicate 32 0"

definition key1 :: bytes where
  "key1 = replicate 32 1"

definition iv0 :: bytes where
  "iv0 = replicate 16 0"

definition acc1234 :: bytes where
  "acc1234 = [0x31, 0x32, 0x33, 0x34]"

definition acc9999 :: bytes where
  "acc9999 = [0x39, 0x39, 0x39, 0x39]"

definition plainA :: bytes where
  "plainA =
     [0x7B, 0x22, 0x61, 0x63, 0x63, 0x6F, 0x75, 0x6E, 0x74, 0x49, 0x64, 0x22, 0x3A, 0x22, 0x31,
     0x32, 0x33, 0x34, 0x22, 0x2C, 0x22, 0x65, 0x78, 0x70, 0x69, 0x72, 0x79, 0x22, 0x3A, 0x22,
     0x32, 0x30, 0x33, 0x30, 0x2D, 0x30, 0x31, 0x2D, 0x30, 0x31, 0x54, 0x30, 0x30, 0x3A, 0x30,
     0x30, 0x3A, 0x30, 0x30, 0x5A, 0x22, 0x7D]"

definition cipherA :: bytes where
  "cipherA =
     [0x53, 0x4E, 0x58, 0x17, 0x9A, 0x34, 0xAB, 0x84, 0x2B, 0x9F, 0x3E, 0x20, 0xE8, 0x88, 0x95,
     0xAE, 0xB6, 0x8B, 0x98, 0xAD, 0xD3, 0xB6, 0x93, 0x81, 0x93, 0xDE, 0xDB, 0x5C, 0x10, 0x9C,
     0x31, 0x27, 0x69, 0xBE, 0x6E, 0x24, 0x0A, 0x0A, 0x67, 0xA0, 0x01, 0x5A, 0x67, 0x37, 0x04,
     0x75, 0x7E, 0x65, 0x74, 0x35, 0x25, 0xEF, 0x7C, 0x7E, 0xAA, 0xBD, 0x73, 0xEB, 0xBF, 0x44,
     0xF6, 0x56, 0x40, 0xD3]"

definition macA :: bytes where
  "macA =
     [0x00, 0x3C, 0x87, 0xFA, 0xF2, 0x91, 0xFE, 0xE8, 0xAC, 0xDE, 0xE5, 0x7A, 0x17, 0x0A, 0xF2,
     0x81, 0x48, 0xA2, 0x47, 0x9B, 0xA5, 0x84, 0x30, 0x70, 0x1E, 0xF5, 0x80, 0x89, 0x5A, 0x20,
     0x7B, 0xF6]"

definition licenseA_b64 :: string where
  "licenseA_b64 =
     ''AAAAAAAAAAAAAAAAAAAAAAA8h/rykf7orN7lehcK8oFIokebpYQwcB71gIlaIHv2U05YF5o0q4Qrnz4g6IiVrraLmK3TtpOBk97bXBCcMSdpvm4kCgpnoAFaZzcEdX5ldDUl73x+qr1z679E9lZA0w==''"

definition macA_9999 :: bytes where
  "macA_9999 =
     [0x74, 0x5C, 0x58, 0xE9, 0xF8, 0xFF, 0x69, 0xA5, 0x3F, 0xF7, 0x61, 0xCF, 0x3B, 0x52, 0x53,
     0x35, 0xAB, 0x49, 0x13, 0x88, 0xAA, 0x5F, 0xDA, 0x40, 0x23, 0x6F, 0x44, 0x83, 0x63, 0x9E,
     0x19, 0xC8]"

definition macA_key1 :: bytes where
  "macA_key1 =
     [0x3D, 0x7E, 0x66, 0xF0, 0xF0, 0x21, 0xD8, 0x02, 0x43, 0x16, 0x86, 0x97, 0x55, 0x25, 0xBE,
     0x29, 0xDA, 0x98, 0xE6, 0x6D, 0xCF, 0x10, 0x5A, 0x0C, 0xF3, 0x0D, 0x86, 0x67, 0x35, 0x24,
     0x17, 0x0B]"

definition plainC :: bytes where
  "plainC =
     [0x7B, 0x22, 0x61, 0x63, 0x63, 0x6F, 0x75, 0x6E, 0x74, 0x49, 0x64, 0x22, 0x3A, 0x22, 0x31,
     0x32, 0x33, 0x34, 0x22, 0x2C, 0x22, 0x65, 0x78, 0x70, 0x69, 0x72, 0x79, 0x22, 0x3A, 0x22,
     0x31, 0x39, 0x37, 0x30, 0x2D, 0x30, 0x31, 0x2D, 0x30, 0x31, 0x54, 0x30, 0x30, 0x3A, 0x30,
     0x30, 0x3A, 0x30, 0x30, 0x5A, 0x22, 0x7D]"

definition cipherC :: bytes where
  "cipherC =
     [0x53, 0x4E, 0x58, 0x17, 0x9A, 0x34, 0xAB, 0x84, 0x2B, 0x9F, 0x3E, 0x20, 0xE8, 0x88, 0x95,
     0xAE, 0x7C, 0x3C, 0x2D, 0x07, 0x1D, 0xFB, 0xD1, 0x7D, 0x41, 0x6C, 0xD7, 0x41, 0xBF, 0xEC,
     0x30, 0x7D, 0xD4, 0x2B, 0x69, 0x24, 0x1B, 0xDA, 0x93, 0x36, 0xE8, 0x30, 0xD0, 0x1E, 0x45,
     0x09, 0x66, 0x37, 0x1B, 0xF2, 0xC0, 0x6D, 0x53, 0x4D, 0x71, 0x7D, 0x15, 0x2F, 0x1D, 0x94,
     0x6B, 0x84, 0x05, 0xF4]"

definition macC :: bytes where
  "macC =
     [0x9A, 0xE0, 0x36, 0xAD, 0x65, 0x8C, 0xA1, 0x62, 0x67, 0x7F, 0x70, 0x71, 0xA1, 0x57, 0xD0,
     0x68, 0x51, 0x17, 0xE2, 0x81, 0xBF, 0xED, 0x5E, 0x05, 0x34, 0x37, 0x66, 0x76, 0x79, 0x14,
     0x09, 0xBA]"

definition licenseC_b64 :: string where
  "licenseC_b64 =
     ''AAAAAAAAAAAAAAAAAAAAAJrgNq1ljKFiZ39wcaFX0GhRF+KBv+1eBTQ3ZnZ5FAm6U05YF5o0q4Qrnz4g6IiVrnw8LQcd+9F9QWzXQb/sMH3UK2kkG9qTNugw0B5FCWY3G/LAbVNNcX0VLx2Ua4QF9A==''"

definition plainD :: bytes where
  "plainD =
     [0x7B, 0x22, 0x61, 0x63, 0x63, 0x6F, 0x75, 0x6E, 0x74, 0x49, 0x64, 0x22, 0x3A, 0x22, 0x31,
     0x32, 0x33, 0x34, 0x22, 0x2C, 0x22, 0x65, 0x61, 0x4E, 0x61, 0x6D, 0x65, 0x22, 0x3A, 0x22,
     0x4D, 0x79, 0x45, 0x41, 0x22, 0x7D]"

definition cipherD :: bytes where
  "cipherD =
     [0x53, 0x4E, 0x58, 0x17, 0x9A, 0x34, 0xAB, 0x84, 0x2B, 0x9F, 0x3E, 0x20, 0xE8, 0x88, 0x95,
     0xAE, 0xC9, 0x8E, 0x8F, 0xB5, 0xFF, 0x79, 0x36, 0x3F, 0x77, 0x02, 0x06, 0x60, 0x99, 0x21,
     0x0C, 0x57, 0x62, 0xFE, 0x64, 0x57, 0xE9, 0x7D, 0xB9, 0x5B, 0x0A, 0x5E, 0xA7, 0x9A, 0x33,
     0xA8, 0xC8, 0x79]"

definition macD :: bytes where
  "macD =
     [0x11, 0x6E, 0x5D, 0x7E, 0x0D, 0xA4, 0x96, 0x3A, 0x1D, 0xB3, 0xB9, 0x69, 0xB7, 0x17, 0x6A,
     0x71, 0xFD, 0x8E, 0x4F, 0xFB, 0x2E, 0xB0, 0x57, 0x4E, 0x37, 0x1E, 0x37, 0x4F, 0x1E, 0xB8,
     0x9E, 0x24]"

definition licenseD_b64 :: string where
  "licenseD_b64 =
     ''AAAAAAAAAAAAAAAAAAAAABFuXX4NpJY6HbO5abcXanH9jk/7LrBXTjceN08euJ4kU05YF5o0q4Qrnz4g6IiVrsmOj7X/eTY/dwIGYJkhDFdi/mRX6X25Wwpep5ozqMh5''"

definition jsonA :: json where
  "jsonA = JObject [(''accountId'', JString ''1234''),
                    (''expiry'', JString ''2030-01-01T00:00:00Z'')]"

definition jsonC :: json where
  "jsonC = JObject [(''accountId'', JString ''1234''),
                    (''expiry'', JString ''1970-01-01T00:00:00Z'')]"

definition jsonD :: json where
  "jsonD = JObject [(''accountId'', JString ''1234''), (''eaName'', JString ''MyEA'')]"

definition recorded_platform :: "time_t \<Rightarrow> platform" where
  "recorded_platform now =
     \<lparr>crypt_base64 = map_of
        [(key0_b64, key0), (key1_b64, key1), (''AAAA'', [0, 0, 0]),
         (short_b64, replicate 40 0),
         (licenseA_b64, iv0 @ macA @ cipherA),
         (licenseC_b64, iv0 @ macC @ cipherC),
         (licenseD_b64, iv0 @ macD @ cipherD)],
      crypt_hmac = (\<lambda>k m. map_of
        [((key0, iv0 @ cipherA @ acc1234), macA),
         ((key0, iv0 @ cipherA @ acc9999), macA_9999),
         ((key1, iv0 @ cipherA @ acc1234), macA_key1),
         ((key0, iv0 @ cipherC @ acc1234), macC),
         ((key0, iv0 @ cipherD @ acc1234), macD)] (k, m)),
      crypt_aes = (\<lambda>k iv c. map_of
        [((key0, iv0, cipherA), plainA),
         ((key0, iv0, cipherC), plainC),
         ((key0, iv0, cipherD), plainD)] (k, iv, c)),
      json_parse = map_of [(plainA, jsonA), (plainC, jsonC), (plainD, jsonD)],
      time_now = now,
      stoi = (\<lambda>s. None),
      stod = (\<lambda>s. None),
      double_of_int = real_of_int\<rparr>"

text \<open>A verified decoder with one value of each kind, to run the accessors on.\<close>

definition sample_decoder :: decoder where
  "sample_decoder =
     \<lparr>payload = JObject [(''a'', JString ''yes''), (''b'', JString ''TRUE''), (''c'', JInt 0),
                          (''d'', JFloat (1 / 2)), (''e'', JNull), (''f'', JBool False)],
      isVerified = True, lastStringResult = []\<rparr>"

section \<open>The stages of verify\<close>

text \<open>
  Each lemma gives the whole result of \<open>verify\<close> on the inputs that leave the function at
  one of its return statements.
\<close>

lemma hmac_sha256_length: "hmac_sha256 P key data = Some mac \<Longrightarrow> length mac = 32"
  by (auto simp: hmac_sha256_def)

lemma json_contains_clear: "\<not> json_contains (json_clear j) k"
  by (cases j) simp_all

lemma is_string_get: "is_string v \<Longrightarrow> v = JString (get_string v)"
  by (cases v) simp_all

lemma verify_null:
  "mk = None \<or> lic = None \<or> acc = None \<Longrightarrow>
   verify P d mk lic acc = (Invalid, d\<lparr>isVerified := False, payload := json_clear (payload d)\<rparr>, [])"
  by (auto simp: verify_def Let_def split: option.splits)

lemma verify_first_call:
  "\<exists>t. verify_calls P d (Some mk) (Some lic) (Some acc) = Base64Decode mk # t"
  by (simp add: verify_calls_def verify_def Let_def split: option.splits)

lemma verify_bad_key:
  "base64_decode P mk = None \<or> (\<exists>k. base64_decode P mk = Some k \<and> length k \<noteq> 32) \<Longrightarrow>
   verify P d (Some mk) (Some lic) (Some acc) =
     (KeyError, d\<lparr>isVerified := False, payload := json_clear (payload d)\<rparr>, [Base64Decode mk])"
  by (auto simp: verify_def Let_def split: option.splits)

lemma verify_bad_license:
  "base64_decode P mk = Some k \<Longrightarrow> length k = 32 \<Longrightarrow>
   base64_decode P lic = None \<or> (\<exists>b. base64_decode P lic = Some b \<and> length b < 48) \<Longrightarrow>
   verify P d (Some mk) (Some lic) (Some acc) =
     (Invalid, d\<lparr>isVerified := False, payload := json_clear (payload d)\<rparr>,
      [Base64Decode mk, Base64Decode lic])"
  by (auto simp: verify_def Let_def split: option.splits)

lemma verify_flag_iff:
  "isVerified (verify_decoder P d0 mk lic acc) \<longleftrightarrow> verify_status P d0 mk lic acc = Valid"
  by (simp add: verify_decoder_def verify_status_def verify_def Let_def split: option.splits)

lemma verify_ignores_flag:
  "verify P (d0\<lparr>isVerified := b\<rparr>) mk lic acc = verify P d0 mk lic acc"
  by (simp add: verify_def Let_def split: option.splits)

lemma verify_payload_early:
  "verify_status P d0 mk lic acc \<in> {Invalid, KeyError, Tampered, DecryptionFailed, ParseError} \<Longrightarrow>
   payload (verify_decoder P d0 mk lic acc) = json_clear (payload d0)"
  by (auto simp add: verify_decoder_def verify_status_def verify_def Let_def split: option.splits if_splits)

lemma verify_payload_late:
  "verify_status P d0 mk lic acc \<in> {Valid, Expired} \<Longrightarrow>
   \<exists>plain. json_parse P plain = Some (payload (verify_decoder P d0 mk lic acc))"
  by (auto simp add: verify_decoder_def verify_status_def verify_def Let_def split: option.splits if_splits)


lemma verify_mac_stage:
  assumes "base64_decode P mk = Some K" "length K = 32"
    and "base64_decode P lic = Some bin" "48 \<le> length bin"
  shows "hmac_sha256 P K (take 16 bin @ drop 48 bin @ map byte_of_char acc) = None \<Longrightarrow>
         verify P d (Some mk) (Some lic) (Some acc) =
           (DecryptionFailed, d\<lparr>isVerified := False, payload := json_clear (payload d)\<rparr>,
            [Base64Decode mk, Base64Decode lic,
             HmacSha256 K (take 16 bin @ drop 48 bin @ map byte_of_char acc)])"
    and "hmac_sha256 P K (take 16 bin @ drop 48 bin @ map byte_of_char acc) = Some mac \<Longrightarrow>
         mac \<noteq> take 32 (drop 16 bin) \<Longrightarrow>
         verify P d (Some mk) (Some lic) (Some acc) =
           (Tampered, d\<lparr>isVerified := False, payload := json_clear (payload d)\<rparr>,
            [Base64Decode mk, Base64Decode lic,
             HmacSha256 K (take 16 bin @ drop 48 bin @ map byte_of_char acc),
             Memcmp mac (take 32 (drop 16 bin))])"
  using assms by (auto simp: verify_def Let_def)

lemma verify_after_mac:
  assumes "base64_decode P mk = Some K" "length K = 32"
    and "base64_decode P lic = Some bin" "48 \<le> length bin"
    and "hmac_sha256 P K (take 16 bin @ drop 48 bin @ map byte_of_char acc)
           = Some (take 32 (drop 16 bin))"
  shows "aes_cbc_decrypt P K (take 16 bin) (drop 48 bin) = None \<Longrightarrow>
         verify P d (Some mk) (Some lic) (Some acc) =
           (DecryptionFailed, d\<lparr>isVerified := False, payload := json_clear (payload d)\<rparr>,
            [Base64Decode mk, Base64Decode lic,
             HmacSha256 K (take 16 bin @ drop 48 bin @ map byte_of_char acc),
             Memcmp (take 32 (drop 16 bin)) (take 32 (drop 16 bin)),
             AesCbcDecrypt K (take 16 bin) (drop 48 bin)])"
    and "aes_cbc_decrypt P K (take 16 bin) (drop 48 bin) = Some plain \<Longrightarrow>
         json_parse P plain = None \<Longrightarrow>
         verify P d (Some mk) (Some lic) (Some acc) =
           (ParseError, d\<lparr>isVerified := False, payload := json_clear (payload d)\<rparr>,
            [Base64Decode mk, Base64Decode lic,
             HmacSha256 K (take 16 bin @ drop 48 bin @ map byte_of_char acc),
             Memcmp (take 32 (drop 16 bin)) (take 32 (drop 16 bin)),
             AesCbcDecrypt K (take 16 bin) (drop 48 bin), JsonParse plain])"
    and "aes_cbc_decrypt P K (take 16 bin) (drop 48 bin) = Some plain \<Longrightarrow>
         json_parse P plain = Some j \<Longrightarrow>
         verify P d (Some mk) (Some lic) (Some acc) =
           (if expiry_passed P j then Expired else Valid,
            d\<lparr>isVerified := \<not> expiry_passed P j, payload := j\<rparr>,
            [Base64Decode mk, Base64Decode lic,
             HmacSha256 K (take 16 bin @ drop 48 bin @ map byte_of_char acc),
             Memcmp (take 32 (drop 16 bin)) (take 32 (drop 16 bin)),
             AesCbcDecrypt K (take 16 bin) (drop 48 bin), JsonParse plain] @ expiry_calls P j)"
  using assms by (auto simp: verify_def Let_def expiry_calls_def expiry_passed_def)

lemma accessors_unverified:
  "\<not> isVerified d \<Longrightarrow>
     getValue d key dv = default_string dv \<and> getValueAsInt P d key i = i
     \<and> getValueAsBool d key bv = bv \<and> getValueAsDouble P d key r = r
     \<and> getValueAsDateTime d key t = t \<and> \<not> hasKey d key"
  by (simp add: getValue_def getValueAsInt_def getValueAsBool_def getValueAsDouble_def
      getValueAsDateTime_def hasKey_def)

lemma verify_payload_cases:
  "(verify_status P d0 mk lic acc \<notin> {Valid, Expired} \<longrightarrow>
      payload (verify_decoder P d0 mk lic acc) = json_clear (payload d0))
   \<and> (verify_status P d0 mk lic acc \<in> {Valid, Expired} \<longrightarrow>
      (\<exists>plain. json_parse P plain = Some (payload (verify_decoder P d0 mk lic acc))))"
proof -
  have "verify_status P d0 mk lic acc \<notin> {Valid, Expired} \<Longrightarrow>
        verify_status P d0 mk lic acc \<in> {Invalid, KeyError, Tampered, DecryptionFailed, ParseError}"
    by (cases "verify_status P d0 mk lic acc") simp_all
  then show ?thesis
    using verify_payload_early [of P d0 mk lic acc] verify_payload_late [of P d0 mk lic acc]
    by blast
qed

lemma envelope_split:
  assumes "length iv = 16" "length tag = 32"
  shows "take 16 (iv @ tag @ ct) = iv" "take 32 (drop 16 (iv @ tag @ ct)) = tag"
    "drop 48 (iv @ tag @ ct) = ct" "48 \<le> length (iv @ tag @ ct)"
  using assms by simp_all

lemma platform_time_update:
  "base64_decode (P\<lparr>time_now := t\<rparr>) = base64_decode P"
  "hmac_sha256 (P\<lparr>time_now := t\<rparr>) = hmac_sha256 P"
  "aes_cbc_decrypt (P\<lparr>time_now := t\<rparr>) = aes_cbc_decrypt P"
  "json_parse (P\<lparr>time_now := t\<rparr>) = json_parse P"
  by (simp_all add: fun_eq_iff base64_decode_def hmac_sha256_def aes_cbc_decrypt_def)

lemma verify_expiry_step:
  assumes "base64_decode P mk = Some K" "length K = 32"
    and "base64_decode P lic = Some bin" "48 \<le> length bin"
    and "hmac_sha256 P K (take 16 bin @ drop 48 bin @ map byte_of_char acc)
           = Some (take 32 (drop 16 bin))"
    and "aes_cbc_decrypt P K (take 16 bin) (drop 48 bin) = Some plain"
    and "json_parse P plain = Some j"
  shows "verify_status (P\<lparr>time_now := t\<rparr>) d (Some mk) (Some lic) (Some acc) =
           (if expiry_passed (P\<lparr>time_now := t\<rparr>) j then Expired else Valid)"
    and "verify_decoder (P\<lparr>time_now := t\<rparr>) d (Some mk) (Some lic) (Some acc) =
           d\<lparr>isVerified := \<not> expiry_passed (P\<lparr>time_now := t\<rparr>) j, payload := j\<rparr>"
  using verify_after_mac(3) [of "P\<lparr>time_now := t\<rparr>" mk K lic bin acc plain j d] assms
  by (simp_all add: platform_time_update verify_status_def verify_decoder_def)

section \<open>The date parser on the texts of the pattern\<close>













lemma sint_long_of_int:
  "- (2 ^ 31) \<le> k \<Longrightarrow> k < 2 ^ 31 \<Longrightarrow> sint (word_of_int k :: long) = k"
  by (simp add: signed_of_int signed_take_bit_int_eq_self)

lemma mkgmtime_ge: "- 1 \<le> mkgmtime t"
  by (simp add: mkgmtime_def Let_def)

section \<open>Facts of the recorded provider\<close>

lemma recorded_key0:
  "base64_decode (recorded_platform now) key0_b64 = Some key0" "length key0 = 32"
  by (simp_all add: base64_decode_def recorded_platform_def key0_def)

lemma recorded_key1:
  "base64_decode (recorded_platform now) key1_b64 = Some key1" "length key1 = 32"
  by (simp_all add: base64_decode_def recorded_platform_def key1_def key0_b64_def key1_b64_def)

lemma recorded_licenseA:
  "base64_decode (recorded_platform now) licenseA_b64 = Some (iv0 @ macA @ cipherA)"
  "length iv0 = 16"
  by code_simp+

lemma recorded_hmacA:
  "hmac_sha256 (recorded_platform now) key0 (iv0 @ cipherA @ map byte_of_char ''1234'') = Some macA"
  "hmac_sha256 (recorded_platform now) key0 (iv0 @ cipherA @ map byte_of_char ''9999'') = Some macA_9999"
  "hmac_sha256 (recorded_platform now) key1 (iv0 @ cipherA @ map byte_of_char ''1234'') = Some macA_key1"
  "macA_9999 \<noteq> macA" "macA_key1 \<noteq> macA"
  by code_simp+

lemma recorded_bad:
  "base64_decode (recorded_platform now) ''AAAA'' = Some [0, 0, 0]"
  "base64_decode (recorded_platform now) ''InvalidBase64!@#$'' = None"
  "base64_decode (recorded_platform now) short_b64 = Some (replicate 40 0)"
  by code_simp+

lemma recorded_time: "(recorded_platform a)\<lparr>time_now := t\<rparr> = recorded_platform t"
  by (simp add: recorded_platform_def)

lemma recorded_runA:
  "48 \<le> length (iv0 @ macA @ cipherA)"
  "hmac_sha256 (recorded_platform now) key0
     (take 16 (iv0 @ macA @ cipherA) @ drop 48 (iv0 @ macA @ cipherA) @ map byte_of_char ''1234'')
     = Some (take 32 (drop 16 (iv0 @ macA @ cipherA)))"
  "aes_cbc_decrypt (recorded_platform now) key0
     (take 16 (iv0 @ macA @ cipherA)) (drop 48 (iv0 @ macA @ cipherA)) = Some plainA"
  "json_parse (recorded_platform now) plainA = Some jsonA"
  by code_simp+

lemma recorded_licenseC:
  "base64_decode (recorded_platform now) licenseC_b64 = Some (iv0 @ macC @ cipherC)"
  by code_simp

lemma recorded_runC:
  "48 \<le> length (iv0 @ macC @ cipherC)"
  "hmac_sha256 (recorded_platform now) key0
     (take 16 (iv0 @ macC @ cipherC) @ drop 48 (iv0 @ macC @ cipherC) @ map byte_of_char ''1234'')
     = Some (take 32 (drop 16 (iv0 @ macC @ cipherC)))"
  "aes_cbc_decrypt (recorded_platform now) key0
     (take 16 (iv0 @ macC @ cipherC)) (drop 48 (iv0 @ macC @ cipherC)) = Some plainC"
  "json_parse (recorded_platform now) plainC = Some jsonC"
  by code_simp+

lemma recorded_licenseD:
  "base64_decode (recorded_platform now) licenseD_b64 = Some (iv0 @ macD @ cipherD)"
  by code_simp

lemma recorded_runD:
  "48 \<le> length (iv0 @ macD @ cipherD)"
  "hmac_sha256 (recorded_platform now) key0
     (take 16 (iv0 @ macD @ cipherD) @ drop 48 (iv0 @ macD @ cipherD) @ map byte_of_char ''1234'')
     = Some (take 32 (drop 16 (iv0 @ macD @ cipherD)))"
  "aes_cbc_decrypt (recorded_platform now) key0
     (take 16 (iv0 @ macD @ cipherD)) (drop 48 (iv0 @ macD @ cipherD)) = Some plainD"
  "json_parse (recorded_platform now) plainD = Some jsonD"
  by code_simp+

lemma recorded_dates:
  "sint (parseISODateTime ''2030-01-01T00:00:00Z'') = 1893456000"
  "sint (parseISODateTime ''1970-01-01T00:00:00Z'') = 0"
  "get_time ''1970-01-01T00:00:00Z'' \<noteq> None"
  by code_simp+

lemma recorded_payloads:
  "json_contains jsonA ''expiry''" "json_at jsonA ''expiry'' = JString ''2030-01-01T00:00:00Z''"
  "json_contains jsonC ''expiry''" "json_at jsonC ''expiry'' = JString ''1970-01-01T00:00:00Z''"
  "\<not> json_contains jsonD ''expiry''"
  by (simp_all add: jsonA_def jsonC_def jsonD_def)

lemma recorded_tm:
  "get_time ''2030-01-01T00:00:00Z'' =
     Some (\<lparr>tm_sec = 0, tm_min = 0, tm_hour = 0, tm_mday = 1, tm_mon = 0, tm_year = 130\<rparr>, ''Z'')"
  "mkgmtime \<lparr>tm_sec = 0, tm_min = 0, tm_hour = 0, tm_mday = 1, tm_mon = 0, tm_year = 130\<rparr>
     = 1893456000"
  "get_time ''1970-01-01T00:00:00Z'' =
     Some (\<lparr>tm_sec = 0, tm_min = 0, tm_hour = 0, tm_mday = 1, tm_mon = 0, tm_year = 70\<rparr>, ''Z'')"
  "mkgmtime \<lparr>tm_sec = 0, tm_min = 0, tm_hour = 0, tm_mday = 1, tm_mon = 0, tm_year = 70\<rparr> = 0"
  by code_simp+

section \<open>The claims\<close>

subsection \<open>C1: the verified gate\<close>

text \<open>
  Claim C1. A freshly constructed decoder is not verified. After every call of \<open>verify\<close> the
  flag \<open>isVerified\<close> is true exactly when the call returned \<open>Valid\<close>; the flag the decoder had
  before the call has no influence on the result, since it is reset first; the payload the
  decoder had before the call is cleared (on every status but \<open>Valid\<close> and \<open>Expired\<close> the
  stored payload is the cleared one, which contains no key; on these two it is the newly
  parsed one). On every decoder that is not verified each accessor returns the default it
  was given (a null default string is returned as the empty string, as the code writes it)
  and \<open>hasKey\<close> is false.
\<close>

theorem verified_gate:
  "\<not> isVerified Create
   \<and> (isVerified (verify_decoder P d0 mk lic acc) \<longleftrightarrow> verify_status P d0 mk lic acc = Valid)
   \<and> verify P (d0\<lparr>isVerified := b\<rparr>) mk lic acc = verify P d0 mk lic acc
   \<and> (verify_status P d0 mk lic acc \<notin> {Valid, Expired} \<longrightarrow>
        payload (verify_decoder P d0 mk lic acc) = json_clear (payload d0)
        \<and> \<not> json_contains (payload (verify_decoder P d0 mk lic acc)) k)
   \<and> (verify_status P d0 mk lic acc \<in> {Valid, Expired} \<longrightarrow>
        (\<exists>plain. json_parse P plain = Some (payload (verify_decoder P d0 mk lic acc))))
   \<and> (\<not> isVerified d \<longrightarrow>
        getValue d key dv = default_string dv \<and> getValueAsInt P d key i = i
        \<and> getValueAsBool d key bv = bv \<and> getValueAsDouble P d key r = r
        \<and> getValueAsDateTime d key t = t \<and> \<not> hasKey d key)"
  using verify_flag_iff [of P d0 mk lic acc]
    verify_ignores_flag [where P = P and ?d0.0 = d0 and b = b and mk = mk and lic = lic
      and acc = acc]
    verify_payload_cases [of P d0 mk lic acc] accessors_unverified [of d key dv P i bv r t]
  by (simp add: Create_def json_contains_clear)

theorem verified_gate_witness:
  "verify_status (recorded_platform 1900000000) Create
     (Some key0_b64) (Some licenseA_b64) (Some ''1234'') = Expired
   \<and> payload (verify_decoder (recorded_platform 1900000000) Create
       (Some key0_b64) (Some licenseA_b64) (Some ''1234'')) = jsonA
   \<and> getValue (verify_decoder (recorded_platform 1900000000) Create
       (Some key0_b64) (Some licenseA_b64) (Some ''1234'')) (Some ''accountId'') (Some ''none'')
       = ''none''
   \<and> \<not> hasKey (verify_decoder (recorded_platform 1900000000) Create
       (Some key0_b64) (Some licenseA_b64) (Some ''1234'')) (Some ''accountId'')"
proof -
  let ?P = "recorded_platform 1900000000"
  let ?d = "verify_decoder ?P Create (Some key0_b64) (Some licenseA_b64) (Some ''1234'')"
  have st: "verify_status ?P Create (Some key0_b64) (Some licenseA_b64) (Some ''1234'') = Expired"
    by code_simp
  have pl: "payload ?d = jsonA"
    by code_simp
  from verified_gate [where P = "?P" and ?d0.0 = Create and mk = "Some key0_b64"
      and lic = "Some licenseA_b64" and acc = "Some ''1234''" and d = "?d"
      and key = "Some ''accountId''" and dv = "Some ''none''"] st pl
  show ?thesis by (simp add: default_string_def)
qed

subsection \<open>C2: the account id is bound into the tag\<close>

text \<open>
  Claim C2. Take a license whose stored tag is the HMAC of IV, ciphertext and account id \<open>A\<close>
  under a 32-byte master key. Verifying it with the same key and an account id \<open>B\<close> for which
  the recomputed tag differs from the stored one returns \<open>Tampered\<close>; verifying it with
  another 32-byte key for which the recomputed tag differs returns \<open>Tampered\<close> as well.
\<close>

theorem account_binding:
  assumes "base64_decode P mk = Some K" "length K = 32"
    and "base64_decode P lic = Some (iv @ tagA @ ct)" "length iv = 16"
    and "hmac_sha256 P K (iv @ ct @ map byte_of_char A) = Some tagA"
  shows "(hmac_sha256 P K (iv @ ct @ map byte_of_char B) = Some tagB \<and> tagB \<noteq> tagA
           \<longrightarrow> verify_status P d (Some mk) (Some lic) (Some B) = Tampered)
       \<and> (base64_decode P mk' = Some K' \<and> length K' = 32
           \<and> hmac_sha256 P K' (iv @ ct @ map byte_of_char A) = Some tag' \<and> tag' \<noteq> tagA
           \<longrightarrow> verify_status P d (Some mk') (Some lic) (Some A) = Tampered)"
proof -
  have len: "length tagA = 32" using assms(5) by (rule hmac_sha256_length)
  note sp = envelope_split [OF assms(4) len, of ct]
  have "verify_status P d (Some mk) (Some lic) (Some B) = Tampered"
    if "hmac_sha256 P K (iv @ ct @ map byte_of_char B) = Some tagB" "tagB \<noteq> tagA"
    using verify_mac_stage(2) [OF assms(1,2,3) sp(4), of B tagB d] that
    unfolding sp(1-3) verify_status_def by simp
  moreover have "verify_status P d (Some mk') (Some lic) (Some A) = Tampered"
    if "base64_decode P mk' = Some K'" "length K' = 32"
      "hmac_sha256 P K' (iv @ ct @ map byte_of_char A) = Some tag'" "tag' \<noteq> tagA"
    using verify_mac_stage(2) [OF that(1,2) assms(3) sp(4), of A tag' d] that
    unfolding sp(1-3) verify_status_def by simp
  ultimately show ?thesis by blast
qed

theorem account_binding_witness:
  "verify_status (recorded_platform 1793318400) Create
     (Some key0_b64) (Some licenseA_b64) (Some ''9999'') = Tampered
   \<and> verify_status (recorded_platform 1793318400) Create
     (Some key1_b64) (Some licenseA_b64) (Some ''1234'') = Tampered"
  using account_binding [OF recorded_key0(1) [of 1793318400] recorded_key0(2) recorded_licenseA(1) [of 1793318400] recorded_licenseA(2)
      recorded_hmacA(1) [of 1793318400], where B = "''9999''" and tagB = macA_9999
      and d = Create and mk' = key1_b64 and K' = key1 and tag' = macA_key1]
    recorded_hmacA(2) [of 1793318400] recorded_hmacA(3) [of 1793318400] recorded_hmacA(4,5) recorded_key1(1) [of 1793318400] recorded_key1(2)
  by simp

subsection \<open>C3: the order of the steps\<close>

text \<open>
  Claim C3. Take a run of \<open>verify\<close> with all three inputs present, a key that decodes to 32
  bytes \<open>K\<close> and a license that decodes to at least 48 bytes \<open>bin\<close>. Its calls are the first
  \<open>n\<close> of one fixed sequence, with \<open>n\<close> from 3 to 8: decode the key, decode the license,
  compute the tag of IV, ciphertext and account id under \<open>K\<close>, compare the computed tag with
  bytes 16 to 47 of \<open>bin\<close>, decrypt the ciphertext under \<open>K\<close> and the IV, parse the plaintext,
  parse the expiry date, read the clock. The run stops after the third call exactly when
  the tag could not be computed (\<open>DecryptionFailed\<close>); it goes on to the comparison with the
  tag that was computed, stops there when the two differ (\<open>Tampered\<close>), and goes past it only
  when they are equal; it goes past the decryption only with the plaintext the decryption
  returned, and past the parsing only when the plaintext parsed to a payload with a string
  field \<open>expiry\<close>. So nothing is decrypted before the stored tag matched, and nothing is
  parsed or compared with the clock before the decryption succeeded. Every other run (an
  absent input, a key or a license that does not decode to the required length) calls the
  base64 decoder only.
\<close>

theorem verify_call_order:
  "(mk = Some mk' \<and> lic = Some lic' \<and> acc = Some acc'
      \<and> base64_decode P mk' = Some K \<and> length K = 32
      \<and> base64_decode P lic' = Some bin \<and> 48 \<le> length bin \<longrightarrow>
    (let iv = take 16 bin; hm = take 32 (drop 16 bin); ct = drop 48 bin;
         m = iv @ ct @ map byte_of_char acc'
     in \<exists>n mac plain s.
        verify_calls P d mk lic acc =
          take n [Base64Decode mk', Base64Decode lic', HmacSha256 K m, Memcmp mac hm,
                  AesCbcDecrypt K iv ct, JsonParse plain, ParseDate s, ReadClock]
        \<and> 3 \<le> n \<and> n \<le> 8
        \<and> (n = 3 \<longrightarrow> hmac_sha256 P K m = None
                      \<and> verify_status P d mk lic acc = DecryptionFailed)
        \<and> (4 \<le> n \<longrightarrow> hmac_sha256 P K m = Some mac)
        \<and> (n = 4 \<longrightarrow> mac \<noteq> hm \<and> verify_status P d mk lic acc = Tampered)
        \<and> (5 \<le> n \<longrightarrow> mac = hm)
        \<and> (n = 5 \<longrightarrow> aes_cbc_decrypt P K iv ct = None
                      \<and> verify_status P d mk lic acc = DecryptionFailed)
        \<and> (6 \<le> n \<longrightarrow> aes_cbc_decrypt P K iv ct = Some plain)
        \<and> (n = 6 \<longrightarrow>
              (json_parse P plain = None \<and> verify_status P d mk lic acc = ParseError)
              \<or> (\<exists>j. json_parse P plain = Some j
                    \<and> \<not> (json_contains j ''expiry'' \<and> is_string (json_at j ''expiry''))
                    \<and> verify_status P d mk lic acc = Valid))
        \<and> (7 \<le> n \<longrightarrow>
              (\<exists>j. json_parse P plain = Some j \<and> json_contains j ''expiry''
                    \<and> json_at j ''expiry'' = JString s))
        \<and> (n = 7 \<longrightarrow> \<not> 0 <s parseISODateTime s \<and> verify_status P d mk lic acc = Valid)
        \<and> (n = 8 \<longrightarrow> 0 <s parseISODateTime s
              \<and> verify_status P d mk lic acc =
                  (if sint (parseISODateTime s) < time_now P then Expired else Valid))))
   \<and> (\<not> (\<exists>mk' lic' acc' K bin. mk = Some mk' \<and> lic = Some lic' \<and> acc = Some acc'
            \<and> base64_decode P mk' = Some K \<and> length K = 32
            \<and> base64_decode P lic' = Some bin \<and> 48 \<le> length bin) \<longrightarrow>
        set (verify_calls P d mk lic acc) \<subseteq> range Base64Decode
        \<and> verify_status P d mk lic acc \<in> {Invalid, KeyError})"
proof (intro conjI impI)
  assume "mk = Some mk' \<and> lic = Some lic' \<and> acc = Some acc'
      \<and> base64_decode P mk' = Some K \<and> length K = 32
      \<and> base64_decode P lic' = Some bin \<and> 48 \<le> length bin"
  then have in_eq: "mk = Some mk'" "lic = Some lic'" "acc = Some acc'"
    and K: "base64_decode P mk' = Some K" "length K = 32"
    and bin: "base64_decode P lic' = Some bin" "48 \<le> length bin"
    by simp_all
  let ?iv = "take 16 bin" and ?hm = "take 32 (drop 16 bin)" and ?c = "drop 48 bin"
  let ?m = "?iv @ ?c @ map byte_of_char acc'"
  let ?st = "verify_status P d mk lic acc"
  let ?goal = "\<lambda>n mac plain s.
        verify_calls P d mk lic acc =
          take n [Base64Decode mk', Base64Decode lic', HmacSha256 K ?m, Memcmp mac ?hm,
                  AesCbcDecrypt K ?iv ?c, JsonParse plain, ParseDate s, ReadClock]
        \<and> 3 \<le> n \<and> n \<le> 8
        \<and> (n = 3 \<longrightarrow> hmac_sha256 P K ?m = None \<and> ?st = DecryptionFailed)
        \<and> (4 \<le> n \<longrightarrow> hmac_sha256 P K ?m = Some mac)
        \<and> (n = 4 \<longrightarrow> mac \<noteq> ?hm \<and> ?st = Tampered)
        \<and> (5 \<le> n \<longrightarrow> mac = ?hm)
        \<and> (n = 5 \<longrightarrow> aes_cbc_decrypt P K ?iv ?c = None \<and> ?st = DecryptionFailed)
        \<and> (6 \<le> n \<longrightarrow> aes_cbc_decrypt P K ?iv ?c = Some plain)
        \<and> (n = 6 \<longrightarrow>
              (json_parse P plain = None \<and> ?st = ParseError)
              \<or> (\<exists>j. json_parse P plain = Some j
                    \<and> \<not> (json_contains j ''expiry'' \<and> is_string (json_at j ''expiry''))
                    \<and> ?st = Valid))
        \<and> (7 \<le> n \<longrightarrow>
              (\<exists>j. json_parse P plain = Some j \<and> json_contains j ''expiry''
                    \<and> json_at j ''expiry'' = JString s))
        \<and> (n = 7 \<longrightarrow> \<not> 0 <s parseISODateTime s \<and> ?st = Valid)
        \<and> (n = 8 \<longrightarrow> 0 <s parseISODateTime s
              \<and> ?st = (if sint (parseISODateTime s) < time_now P then Expired else Valid))"
  have "\<exists>n mac plain s. ?goal n mac plain s"
  proof (cases "hmac_sha256 P K ?m")
    case None
    then have "?goal 3 [] [] []"
      by (simp add: verify_calls_def verify_status_def in_eq verify_mac_stage(1) [OF K bin])
    then show ?thesis by - ((rule exI)+, assumption)
  next
    case (Some mac)
    show ?thesis
    proof (cases "mac = ?hm")
      case False
      with Some have "?goal 4 mac [] []"
        by (simp add: verify_calls_def verify_status_def in_eq verify_mac_stage(2) [OF K bin])
      then show ?thesis by - ((rule exI)+, assumption)
    next
      case True
      with Some have mac_ok: "hmac_sha256 P K ?m = Some ?hm" by simp
      show ?thesis
      proof (cases "aes_cbc_decrypt P K ?iv ?c")
        case None
        then have "?goal 5 ?hm [] []"
          by (simp add: verify_calls_def verify_status_def in_eq mac_ok
              verify_after_mac(1) [OF K bin mac_ok])
        then show ?thesis by - ((rule exI)+, assumption)
      next
        case (Some plain)
        note plain = this
        show ?thesis
        proof (cases "json_parse P plain")
          case None
          then have "?goal 6 ?hm plain []"
            by (simp add: verify_calls_def verify_status_def in_eq mac_ok plain
                verify_after_mac(2) [OF K bin mac_ok plain])
          then show ?thesis by - ((rule exI)+, assumption)
        next
          case (Some j)
          note run = verify_after_mac(3) [OF K bin mac_ok plain Some, where d = d]
          let ?s = "get_string (json_at j ''expiry'')"
          show ?thesis
          proof (cases "json_contains j ''expiry'' \<and> is_string (json_at j ''expiry'')")
            case False
            then have "?goal 6 ?hm plain []"
              using run
              by (auto simp: verify_calls_def verify_status_def in_eq mac_ok plain Some
                  expiry_calls_def expiry_passed_def)
            then show ?thesis by - ((rule exI)+, assumption)
          next
            case True
            then have js: "json_at j ''expiry'' = JString ?s"
              by (simp add: is_string_get)
            show ?thesis
            proof (cases "0 <s parseISODateTime ?s")
              case False
              with True js have "?goal 7 ?hm plain ?s"
                using run
                by (simp add: verify_calls_def verify_status_def in_eq mac_ok plain Some
                    expiry_calls_def expiry_passed_def)
              then show ?thesis by - ((rule exI)+, assumption)
            next
              case pos: True
              with True js have "?goal 8 ?hm plain ?s"
                using run
                by (simp add: verify_calls_def verify_status_def in_eq mac_ok plain Some
                    expiry_calls_def expiry_passed_def)
              then show ?thesis by - ((rule exI)+, assumption)
            qed
          qed
        qed
      qed
    qed
  qed
  then show "let iv = take 16 bin; hm = take 32 (drop 16 bin); ct = drop 48 bin;
         m = iv @ ct @ map byte_of_char acc'
     in \<exists>n mac plain s.
        verify_calls P d mk lic acc =
          take n [Base64Decode mk', Base64Decode lic', HmacSha256 K m, Memcmp mac hm,
                  AesCbcDecrypt K iv ct, JsonParse plain, ParseDate s, ReadClock]
        \<and> 3 \<le> n \<and> n \<le> 8
        \<and> (n = 3 \<longrightarrow> hmac_sha256 P K m = None
                      \<and> verify_status P d mk lic acc = DecryptionFailed)
        \<and> (4 \<le> n \<longrightarrow> hmac_sha256 P K m = Some mac)
        \<and> (n = 4 \<longrightarrow> mac \<noteq> hm \<and> verify_status P d mk lic acc = Tampered)
        \<and> (5 \<le> n \<longrightarrow> mac = hm)
        \<and> (n = 5 \<longrightarrow> aes_cbc_decrypt P K iv ct = None
                      \<and> verify_status P d mk lic acc = DecryptionFailed)
        \<and> (6 \<le> n \<longrightarrow> aes_cbc_decrypt P K iv ct = Some plain)
        \<and> (n = 6 \<longrightarrow>
              (json_parse P plain = None \<and> verify_status P d mk lic acc = ParseError)
              \<or> (\<exists>j. json_parse P plain = Some j
                    \<and> \<not> (json_contains j ''expiry'' \<and> is_string (json_at j ''expiry''))
                    \<and> verify_status P d mk lic acc = Valid))
        \<and> (7 \<le> n \<longrightarrow>
              (\<exists>j. json_parse P plain = Some j \<and> json_contains j ''expiry''
                    \<and> json_at j ''expiry'' = JString s))
        \<and> (n = 7 \<longrightarrow> \<not> 0 <s parseISODateTime s \<and> verify_status P d mk lic acc = Valid)
        \<and> (n = 8 \<longrightarrow> 0 <s parseISODateTime s
              \<and> verify_status P d mk lic acc =
                  (if sint (parseISODateTime s) < time_now P then Expired else Valid))"
    unfolding Let_def .
next
  assume no: "\<not> (\<exists>mk' lic' acc' K bin. mk = Some mk' \<and> lic = Some lic' \<and> acc = Some acc'
            \<and> base64_decode P mk' = Some K \<and> length K = 32
            \<and> base64_decode P lic' = Some bin \<and> 48 \<le> length bin)"
  have "set (verify_calls P d mk lic acc) \<subseteq> range Base64Decode
        \<and> verify_status P d mk lic acc \<in> {Invalid, KeyError}"
  proof (cases "mk = None \<or> lic = None \<or> acc = None")
    case True
    then show ?thesis by (simp add: verify_calls_def verify_status_def verify_null)
  next
    case False
    then obtain mk' lic' acc' where in_eq: "mk = Some mk'" "lic = Some lic'" "acc = Some acc'"
      by auto
    show ?thesis
    proof (cases "\<exists>K. base64_decode P mk' = Some K \<and> length K = 32")
      case False
      then have "base64_decode P mk' = None \<or> (\<exists>k. base64_decode P mk' = Some k \<and> length k \<noteq> 32)"
        by (cases "base64_decode P mk'") auto
      from verify_bad_key [OF this, of d lic' acc'] show ?thesis
        by (simp add: verify_calls_def verify_status_def in_eq)
    next
      case True
      then obtain K where K: "base64_decode P mk' = Some K" "length K = 32" by auto
      with no in_eq have "base64_decode P lic' = None
          \<or> (\<exists>b. base64_decode P lic' = Some b \<and> length b < 48)"
        by (cases "base64_decode P lic'") (auto simp: not_le)
      from verify_bad_license [OF K this, of d acc'] show ?thesis
        by (simp add: verify_calls_def verify_status_def in_eq)
    qed
  qed
  then show "set (verify_calls P d mk lic acc) \<subseteq> range Base64Decode"
    and "verify_status P d mk lic acc \<in> {Invalid, KeyError}"
    by simp_all
qed

theorem verify_call_order_witness:
  "verify_calls (recorded_platform 1793318400) Create
     (Some key0_b64) (Some licenseA_b64) (Some ''1234'') =
     [Base64Decode key0_b64, Base64Decode licenseA_b64,
      HmacSha256 key0 (iv0 @ cipherA @ acc1234), Memcmp macA macA,
      AesCbcDecrypt key0 iv0 cipherA, JsonParse plainA,
      ParseDate ''2030-01-01T00:00:00Z'', ReadClock]
   \<and> hmac_sha256 (recorded_platform 1793318400) key0 (iv0 @ cipherA @ acc1234) = Some macA
   \<and> aes_cbc_decrypt (recorded_platform 1793318400) key0 iv0 cipherA = Some plainA
   \<and> verify_status (recorded_platform 1793318400) Create
     (Some key0_b64) (Some licenseA_b64) (Some ''1234'') = Valid
   \<and> verify_status (recorded_platform 1793318400) Create
     (Some key0_b64) (Some licenseA_b64) (Some ''9999'') = Tampered"
proof -
  let ?P = "recorded_platform 1793318400"
  let ?calls = "verify_calls ?P Create (Some key0_b64) (Some licenseA_b64) (Some ''1234'')"
  let ?st = "verify_status ?P Create (Some key0_b64) (Some licenseA_b64) (Some ''1234'')"
  let ?st9 = "verify_status ?P Create (Some key0_b64) (Some licenseA_b64) (Some ''9999'')"
  have bin: "take 16 (iv0 @ macA @ cipherA) = iv0" "take 32 (drop 16 (iv0 @ macA @ cipherA)) = macA"
    "drop 48 (iv0 @ macA @ cipherA) = cipherA" "map byte_of_char ''1234'' = acc1234"
    "map byte_of_char ''9999'' = acc9999"
    by code_simp+
  have len: "48 \<le> length (iv0 @ macA @ cipherA)"
    by code_simp
  have now: "time_now ?P = 1793318400"
    by (simp add: recorded_platform_def)
  have c: "?calls =
     [Base64Decode key0_b64, Base64Decode licenseA_b64,
      HmacSha256 key0 (iv0 @ cipherA @ acc1234), Memcmp macA macA,
      AesCbcDecrypt key0 iv0 cipherA, JsonParse plainA,
      ParseDate ''2030-01-01T00:00:00Z'', ReadClock]"
    by code_simp
  have pre: "Some key0_b64 = Some key0_b64 \<and> Some licenseA_b64 = Some licenseA_b64
      \<and> Some a = Some a
      \<and> base64_decode ?P key0_b64 = Some key0 \<and> length key0 = 32
      \<and> base64_decode ?P licenseA_b64 = Some (iv0 @ macA @ cipherA)
      \<and> 48 \<le> length (iv0 @ macA @ cipherA)" for a :: string
    using recorded_key0(1) [of 1793318400] recorded_key0(2)
      recorded_licenseA(1) [of 1793318400] len by simp
  note T1 = verify_call_order [where P = "?P" and d = Create and mk = "Some key0_b64"
      and lic = "Some licenseA_b64" and mk' = key0_b64 and lic' = licenseA_b64 and K = key0
      and bin = "iv0 @ macA @ cipherA" and acc = "Some ''1234''" and acc' = "''1234''",
      THEN conjunct1, unfolded Let_def bin(1-3), THEN mp, OF pre]
  note T9 = verify_call_order [where P = "?P" and d = Create and mk = "Some key0_b64"
      and lic = "Some licenseA_b64" and mk' = key0_b64 and lic' = licenseA_b64 and K = key0
      and bin = "iv0 @ macA @ cipherA" and acc = "Some ''9999''" and acc' = "''9999''",
      THEN conjunct1, unfolded Let_def bin(1-3), THEN mp, OF pre]
  obtain n mac plain s where
    eq: "?calls = take n [Base64Decode key0_b64, Base64Decode licenseA_b64,
           HmacSha256 key0 (iv0 @ cipherA @ map byte_of_char ''1234''), Memcmp mac macA,
           AesCbcDecrypt key0 iv0 cipherA, JsonParse plain, ParseDate s, ReadClock]"
    and le8: "n \<le> 8"
    and h4: "4 \<le> n \<longrightarrow>
      hmac_sha256 ?P key0 (iv0 @ cipherA @ map byte_of_char ''1234'') = Some mac"
    and h5: "5 \<le> n \<longrightarrow> mac = macA"
    and h6: "6 \<le> n \<longrightarrow> aes_cbc_decrypt ?P key0 iv0 cipherA = Some plain"
    and h8: "n = 8 \<longrightarrow> 0 <s parseISODateTime s
        \<and> ?st = (if sint (parseISODateTime s) < time_now ?P then Expired else Valid)"
    using T1 by (elim exE conjE) (rule that)
  have "length ?calls = 8" unfolding c by simp
  moreover have "length ?calls \<le> n" by (subst eq) simp
  moreover have "length ?calls \<le> 8" unfolding c by simp
  ultimately have n8: "8 \<le> n" by simp
  with eq c have vals: "mac = macA \<and> plain = plainA \<and> s = ''2030-01-01T00:00:00Z''"
    by simp
  have a1: "hmac_sha256 ?P key0 (iv0 @ cipherA @ acc1234) = Some macA"
    using h4 n8 vals bin(4) by simp
  have a2: "aes_cbc_decrypt ?P key0 iv0 cipherA = Some plainA"
    using h6 n8 vals by simp
  obtain n' :: nat and mac' plain' s' where
    le: "3 \<le> n'"
    and g3: "n' = 3 \<longrightarrow>
      hmac_sha256 ?P key0 (iv0 @ cipherA @ map byte_of_char ''9999'') = None
      \<and> ?st9 = DecryptionFailed"
    and g4: "4 \<le> n' \<longrightarrow>
      hmac_sha256 ?P key0 (iv0 @ cipherA @ map byte_of_char ''9999'') = Some mac'"
    and t4: "n' = 4 \<longrightarrow> mac' \<noteq> macA \<and> ?st9 = Tampered"
    and g5: "5 \<le> n' \<longrightarrow> mac' = macA"
    using T9 by (elim exE conjE) (rule that)
  from g3 recorded_hmacA(2) [of 1793318400] have "n' \<noteq> 3" by auto
  with le have "4 \<le> n'" by simp
  with g4 recorded_hmacA(2) [of 1793318400] have "mac' = macA_9999" by simp
  with g5 recorded_hmacA(4) have "\<not> 5 \<le> n'" by auto
  with \<open>4 \<le> n'\<close> have "n' = 4" by simp
  with t4 have a4: "?st9 = Tampered" by simp
  have a3: "?st = Valid"
    using h8 n8 le8 vals by (simp add: recorded_dates(1) now)
  from c a1 a2 a3 a4 show ?thesis by blast
qed

subsection \<open>C4: the expiry step\<close>

text \<open>
  Claim C4, as the code has it. Take a call of \<open>verify\<close> that reaches the expiry step: the
  key and the license decoded, the tag matched, the decryption and the parsing succeeded.
  If the payload has a string field \<open>expiry\<close> that parses to a timestamp which is strictly
  positive, below \<open>2 ^ 31\<close> and strictly less than the current time, \<open>verify\<close> returns
  \<open>Expired\<close>. If the field is absent, is not a string, fails to parse, or parses to a
  timestamp that is not strictly positive, \<open>verify\<close> returns \<open>Valid\<close> whatever the current
  time is. If the timestamp is strictly positive, below \<open>2 ^ 31\<close> and not less than the
  current time, \<open>verify\<close> returns \<open>Valid\<close>. Nothing is said of a timestamp from \<open>2 ^ 31\<close>
  on, which does not fit the \<^verbatim>\<open>long\<close> the code keeps it in.
\<close>

theorem expiry_evaluation:
  assumes "base64_decode P mk = Some K" "length K = 32"
    and "base64_decode P lic = Some bin" "48 \<le> length bin"
    and "hmac_sha256 P K (take 16 bin @ drop 48 bin @ map byte_of_char acc)
           = Some (take 32 (drop 16 bin))"
    and "aes_cbc_decrypt P K (take 16 bin) (drop 48 bin) = Some plain"
    and "json_parse P plain = Some j"
  shows "(json_contains j ''expiry'' \<and> json_at j ''expiry'' = JString s
            \<and> get_time s = Some (tmv, rest)
            \<and> 0 < mkgmtime tmv \<and> mkgmtime tmv < 2 ^ 31 \<and> mkgmtime tmv < t \<longrightarrow>
          verify_status (P\<lparr>time_now := t\<rparr>) d (Some mk) (Some lic) (Some acc) = Expired)
       \<and> (\<not> json_contains j ''expiry'' \<or> \<not> is_string (json_at j ''expiry'')
            \<or> (json_at j ''expiry'' = JString s
                 \<and> (get_time s = None \<or> (get_time s = Some (tmv, rest) \<and> mkgmtime tmv \<le> 0))) \<longrightarrow>
          (\<forall>t'. verify_status (P\<lparr>time_now := t'\<rparr>) d (Some mk) (Some lic) (Some acc) = Valid))
       \<and> (json_contains j ''expiry'' \<and> json_at j ''expiry'' = JString s
            \<and> get_time s = Some (tmv, rest)
            \<and> 0 < mkgmtime tmv \<and> mkgmtime tmv < 2 ^ 31 \<and> t \<le> mkgmtime tmv \<longrightarrow>
          verify_status (P\<lparr>time_now := t\<rparr>) d (Some mk) (Some lic) (Some acc) = Valid)"
proof -
  note st = verify_expiry_step(1) [OF assms]
  have fail: "parseISODateTime s = 0" if "get_time s = None"
    using that by (simp add: parseISODateTime_def)
  have val: "sint (parseISODateTime s) = mkgmtime tmv"
    if "get_time s = Some (tmv, rest)" "mkgmtime tmv < 2 ^ 31"
    using that mkgmtime_ge [of tmv] by (simp add: parseISODateTime_def sint_long_of_int)
  have le: "mkgmtime tmv \<le> 0 \<Longrightarrow> mkgmtime tmv < 2 ^ 31"
    by simp
  show ?thesis
    unfolding st expiry_passed_def
    using val le by (auto simp: word_sless_alt fail)
qed

theorem expiry_evaluation_witness:
  "verify_status (recorded_platform 1900000000) Create
     (Some key0_b64) (Some licenseA_b64) (Some ''1234'') = Expired
   \<and> verify_status (recorded_platform 1793318400) Create
     (Some key0_b64) (Some licenseA_b64) (Some ''1234'') = Valid
   \<and> verify_status (recorded_platform 1793318400) Create
     (Some key0_b64) (Some licenseD_b64) (Some ''1234'') = Valid"
proof -
  note A = expiry_evaluation [OF recorded_key0(1) [of 0] recorded_key0(2)
      recorded_licenseA(1) [of 0] recorded_runA(1) recorded_runA(2-4) [of 0],
      where s = "''2030-01-01T00:00:00Z''" and d = Create and rest = "''Z''"
      and tmv = "\<lparr>tm_sec = 0, tm_min = 0, tm_hour = 0, tm_mday = 1, tm_mon = 0,
        tm_year = 130\<rparr>",
      unfolded recorded_time]
  note D = expiry_evaluation [OF recorded_key0(1) [of 0] recorded_key0(2)
      recorded_licenseD [of 0] recorded_runD(1) recorded_runD(2-4) [of 0],
      where s = "[]" and d = Create and t = 0, unfolded recorded_time]
  have a: "verify_status (recorded_platform 1900000000) Create
     (Some key0_b64) (Some licenseA_b64) (Some ''1234'') = Expired"
    using A [of 1900000000] recorded_payloads(1,2) recorded_tm(1,2) by simp
  have b: "verify_status (recorded_platform 1793318400) Create
     (Some key0_b64) (Some licenseA_b64) (Some ''1234'') = Valid"
    using A [of 1793318400] recorded_payloads(1,2) recorded_tm(1,2) by simp
  have c: "verify_status (recorded_platform 1793318400) Create
     (Some key0_b64) (Some licenseD_b64) (Some ''1234'') = Valid"
    using D recorded_payloads(5) by simp
  from a b c show ?thesis by blast
qed

text \<open>
  The claim as stated asks for \<open>Expired\<close> whenever the expiry parses to a timestamp before
  the current time. The expiry 1970-01-01T00:00:00Z parses, to the timestamp 0, which is
  before the current time of the run; the code tests \<^verbatim>\<open>expiryTimestamp > 0\<close> first, never
  reads the clock, and returns \<open>Valid\<close>.
\<close>

theorem epoch_expiry_counterexample:
  "json_contains jsonC ''expiry''
   \<and> json_at jsonC ''expiry'' = JString ''1970-01-01T00:00:00Z''
   \<and> get_time ''1970-01-01T00:00:00Z'' \<noteq> None
   \<and> sint (parseISODateTime ''1970-01-01T00:00:00Z'') = 0
   \<and> 0 < time_now (recorded_platform 1793318400)
   \<and> verify (recorded_platform 1793318400) Create
        (Some key0_b64) (Some licenseC_b64) (Some ''1234'') =
      (Valid, \<lparr>payload = jsonC, isVerified = True, lastStringResult = []\<rparr>,
       [Base64Decode key0_b64, Base64Decode licenseC_b64,
        HmacSha256 key0 (iv0 @ cipherC @ acc1234), Memcmp macC macC,
        AesCbcDecrypt key0 iv0 cipherC, JsonParse plainC,
        ParseDate ''1970-01-01T00:00:00Z''])"
proof -
  have "verify (recorded_platform 1793318400) Create
        (Some key0_b64) (Some licenseC_b64) (Some ''1234'') =
      (Valid, \<lparr>payload = jsonC, isVerified = True, lastStringResult = []\<rparr>,
       [Base64Decode key0_b64, Base64Decode licenseC_b64,
        HmacSha256 key0 (iv0 @ cipherC @ acc1234), Memcmp macC macC,
        AesCbcDecrypt key0 iv0 cipherC, JsonParse plainC,
        ParseDate ''1970-01-01T00:00:00Z''])"
    by code_simp
  moreover have "0 < time_now (recorded_platform 1793318400)"
    by (simp add: recorded_platform_def)
  ultimately show ?thesis
    using recorded_payloads(3,4) recorded_dates(2,3) by blast
qed

subsection \<open>C5: the classification of decoding failures\<close>

text \<open>
  Claim C5. With all three inputs present, a master key whose base64 text fails to decode or
  decodes to a length other than 32 bytes makes \<open>verify\<close> return \<open>KeyError\<close>, and the only
  call made is the decoding of the key. When the key decodes to 32 bytes, a license whose
  base64 text fails to decode or decodes to fewer than 48 bytes makes \<open>verify\<close> return
  \<open>Invalid\<close>, and the only calls made are the two decodings. (The code decodes the key
  first, so a call in which both are malformed returns \<open>KeyError\<close>.) In all these cases the
  status is neither \<open>Tampered\<close> nor \<open>DecryptionFailed\<close> and no tag is computed and nothing
  is decrypted.
\<close>

theorem decode_failures:
  "(base64_decode P mk = None \<or> (\<exists>k. base64_decode P mk = Some k \<and> length k \<noteq> 32) \<longrightarrow>
      verify_status P d (Some mk) (Some lic) (Some acc) = KeyError
      \<and> verify_calls P d (Some mk) (Some lic) (Some acc) = [Base64Decode mk])
   \<and> ((\<exists>k. base64_decode P mk = Some k \<and> length k = 32)
       \<and> (base64_decode P lic = None \<or> (\<exists>b. base64_decode P lic = Some b \<and> length b < 48)) \<longrightarrow>
      verify_status P d (Some mk) (Some lic) (Some acc) = Invalid
      \<and> verify_calls P d (Some mk) (Some lic) (Some acc) = [Base64Decode mk, Base64Decode lic])
   \<and> (base64_decode P mk = None \<or> (\<exists>k. base64_decode P mk = Some k \<and> length k \<noteq> 32)
       \<or> base64_decode P lic = None \<or> (\<exists>b. base64_decode P lic = Some b \<and> length b < 48) \<longrightarrow>
      verify_status P d (Some mk) (Some lic) (Some acc) \<in> {KeyError, Invalid}
      \<and> set (verify_calls P d (Some mk) (Some lic) (Some acc))
            \<subseteq> {Base64Decode mk, Base64Decode lic})"
proof -
  let ?bad_key = "base64_decode P mk = None \<or> (\<exists>k. base64_decode P mk = Some k \<and> length k \<noteq> 32)"
  let ?bad_lic = "base64_decode P lic = None \<or> (\<exists>b. base64_decode P lic = Some b \<and> length b < 48)"
  let ?status = "verify_status P d (Some mk) (Some lic) (Some acc)"
  let ?calls = "verify_calls P d (Some mk) (Some lic) (Some acc)"
  have key: "?status = KeyError \<and> ?calls = [Base64Decode mk]" if "?bad_key"
    using verify_bad_key [OF that, of d lic acc]
    by (simp add: verify_status_def verify_calls_def)
  have lic: "?status = Invalid \<and> ?calls = [Base64Decode mk, Base64Decode lic]"
    if "\<exists>k. base64_decode P mk = Some k \<and> length k = 32" "?bad_lic"
  proof -
    from that(1) obtain k where "base64_decode P mk = Some k" "length k = 32" by blast
    from verify_bad_license [OF this that(2), of d acc] show ?thesis
      by (simp add: verify_status_def verify_calls_def)
  qed
  have either: "?status \<in> {KeyError, Invalid} \<and> set ?calls \<subseteq> {Base64Decode mk, Base64Decode lic}"
    if "?bad_key \<or> ?bad_lic"
  proof (cases "?bad_key")
    case True
    from key [OF this] show ?thesis by simp
  next
    case False
    then have good: "\<exists>k. base64_decode P mk = Some k \<and> length k = 32"
      by (cases "base64_decode P mk") auto
    from False that have "?bad_lic" by blast
    from lic [OF good this] show ?thesis by simp
  qed
  from key lic either show ?thesis by blast
qed

theorem decode_failures_witness:
  "verify_status (recorded_platform 1793318400) Create
     (Some ''AAAA'') (Some licenseA_b64) (Some ''1234'') = KeyError
   \<and> verify_calls (recorded_platform 1793318400) Create
     (Some ''AAAA'') (Some licenseA_b64) (Some ''1234'') = [Base64Decode ''AAAA'']
   \<and> verify_status (recorded_platform 1793318400) Create
     (Some key0_b64) (Some ''InvalidBase64!@#$'') (Some ''1234'') = Invalid
   \<and> verify_calls (recorded_platform 1793318400) Create
     (Some key0_b64) (Some ''InvalidBase64!@#$'') (Some ''1234'')
       = [Base64Decode key0_b64, Base64Decode ''InvalidBase64!@#$'']"
  using decode_failures [where P = "recorded_platform 1793318400" and mk = "''AAAA''"
      and d = Create and lic = licenseA_b64 and acc = "''1234''"]
    decode_failures [where P = "recorded_platform 1793318400" and mk = key0_b64
      and d = Create and lic = "''InvalidBase64!@#$''" and acc = "''1234''"]
    recorded_bad [of 1793318400] recorded_key0(1) [of 1793318400] recorded_key0(2)
  by simp

subsection \<open>C6: absent inputs\<close>

text \<open>
  Claim C6, as the code has it. When one of the three inputs is absent (a null pointer),
  \<open>verify\<close> returns \<open>Invalid\<close> and has called none of its collaborators. An input that is
  present is not inspected at this step, whether empty or not: with all three present the
  first thing \<open>verify\<close> does is to decode the master key.
\<close>

theorem null_inputs:
  "(mk = None \<or> lic = None \<or> acc = None \<longrightarrow>
      verify_status P d mk lic acc = Invalid \<and> verify_calls P d mk lic acc = [])
   \<and> (\<exists>t. verify_calls P d (Some m) (Some l) (Some a) = Base64Decode m # t)"
  using verify_first_call [of P d m l a]
  by (auto simp: verify_status_def verify_calls_def verify_null)

theorem null_inputs_witness:
  "verify_status (recorded_platform 1793318400) Create
     (Some key0_b64) (Some licenseA_b64) None = Invalid
   \<and> verify_calls (recorded_platform 1793318400) Create
     (Some key0_b64) (Some licenseA_b64) None = []"
  using null_inputs [of "Some key0_b64" "Some licenseA_b64" None "recorded_platform 1793318400" Create]
  by simp

text \<open>
  The claim as stated asks for \<open>Invalid\<close> on an empty input too. An empty master key is
  handed to the base64 decoder, and the call returns \<open>KeyError\<close>.
\<close>

theorem empty_key_counterexample:
  "verify_status (recorded_platform 1793318400) Create
     (Some []) (Some licenseA_b64) (Some ''1234'') = KeyError
   \<and> verify_calls (recorded_platform 1793318400) Create
     (Some []) (Some licenseA_b64) (Some ''1234'') = [Base64Decode []]"
  by code_simp

subsection \<open>C7: the layout of the envelope and the input of the tag\<close>

text \<open>
  Claim C7. A decoded license of at least 48 bytes is split into the IV (bytes 0 to 15), the
  stored tag (bytes 16 to 47) and the ciphertext (the rest). The tag is computed with the
  master key over the IV, the ciphertext and the bytes of the account id, concatenated with
  nothing in between; the computed tag is compared with the stored tag, and the decryption,
  when the run gets there, is given the master key, the IV and the ciphertext.
\<close>

theorem envelope_layout:
  assumes "base64_decode P mk = Some K" "length K = 32"
    and "base64_decode P lic = Some bin" "48 \<le> length bin"
  shows "bin = take 16 bin @ take 32 (drop 16 bin) @ drop 48 bin
       \<and> length (take 16 bin) = 16 \<and> length (take 32 (drop 16 bin)) = 32
       \<and> take 3 (verify_calls P d (Some mk) (Some lic) (Some acc)) =
           [Base64Decode mk, Base64Decode lic,
            HmacSha256 K (take 16 bin @ drop 48 bin @ map byte_of_char acc)]
       \<and> (hmac_sha256 P K (take 16 bin @ drop 48 bin @ map byte_of_char acc) = Some mac \<longrightarrow>
            verify_calls P d (Some mk) (Some lic) (Some acc) ! 3 = Memcmp mac (take 32 (drop 16 bin)))
       \<and> (4 < length (verify_calls P d (Some mk) (Some lic) (Some acc)) \<longrightarrow>
            verify_calls P d (Some mk) (Some lic) (Some acc) ! 4
              = AesCbcDecrypt K (take 16 bin) (drop 48 bin))"
proof -
  let ?iv = "take 16 bin" and ?hm = "take 32 (drop 16 bin)" and ?c = "drop 48 bin"
  let ?m = "?iv @ ?c @ map byte_of_char acc"
  let ?calls = "verify_calls P d (Some mk) (Some lic) (Some acc)"
  have "drop 48 bin = drop 32 (drop 16 bin)" by simp
  then have a: "bin = ?iv @ ?hm @ ?c"
    by (simp only: append_take_drop_id)
  have b: "length ?iv = 16 \<and> length ?hm = 32" using assms(4) by simp
  have c: "take 3 ?calls = [Base64Decode mk, Base64Decode lic, HmacSha256 K ?m]
           \<and> (hmac_sha256 P K ?m = Some mac \<longrightarrow> ?calls ! 3 = Memcmp mac ?hm)
           \<and> (4 < length ?calls \<longrightarrow> ?calls ! 4 = AesCbcDecrypt K ?iv ?c)"
  proof (cases "hmac_sha256 P K ?m")
    case None
    then show ?thesis
      by (simp add: verify_calls_def verify_mac_stage(1) [OF assms])
  next
    case (Some mac')
    show ?thesis
    proof (cases "mac' = ?hm")
      case False
      with Some verify_mac_stage(2) [OF assms, of acc mac' d] show ?thesis
        by (auto simp: verify_calls_def)
    next
      case True
      with Some have ok: "hmac_sha256 P K ?m = Some ?hm" by simp
      show ?thesis
      proof (cases "aes_cbc_decrypt P K ?iv ?c")
        case None
        then show ?thesis
          by (simp add: verify_calls_def ok verify_after_mac(1) [OF assms ok])
      next
        case (Some plain)
        note plain = this
        show ?thesis
        proof (cases "json_parse P plain")
          case None
          then show ?thesis
            by (simp add: verify_calls_def ok verify_after_mac(2) [OF assms ok plain])
        next
          case (Some j)
          then show ?thesis
            by (simp add: verify_calls_def ok verify_after_mac(3) [OF assms ok plain])
        qed
      qed
    qed
  qed
  from a b c show ?thesis by blast
qed

theorem envelope_layout_witness:
  "take 3 (verify_calls (recorded_platform 1793318400) Create
      (Some key0_b64) (Some licenseA_b64) (Some ''1234'')) =
     [Base64Decode key0_b64, Base64Decode licenseA_b64,
      HmacSha256 key0 (iv0 @ cipherA @ acc1234)]
   \<and> verify_calls (recorded_platform 1793318400) Create
      (Some key0_b64) (Some licenseA_b64) (Some ''1234'') ! 3 = Memcmp macA macA"
proof -
  have bin: "48 \<le> length (iv0 @ macA @ cipherA)"
    "take 16 (iv0 @ macA @ cipherA) = iv0" "take 32 (drop 16 (iv0 @ macA @ cipherA)) = macA"
    "drop 48 (iv0 @ macA @ cipherA) = cipherA" "map byte_of_char ''1234'' = acc1234"
    by code_simp+
  from envelope_layout [OF recorded_key0(1) [of 1793318400] recorded_key0(2) recorded_licenseA(1) [of 1793318400]
      bin(1), where d = Create and acc = "''1234''" and mac = macA]
    recorded_hmacA(1) [of 1793318400]
  show ?thesis unfolding bin by simp
qed

subsection \<open>C8: the date parser\<close>




subsection \<open>C9: the coercion to a boolean\<close>

text \<open>
  Claim C9. On a verified decoder whose payload is an object that has the key,
  \<open>getValueAsBool\<close> returns a boolean value as it is; for a string it returns whether the
  string is exactly \<open>true\<close>, \<open>1\<close> or \<open>yes\<close> (never the default); for a number, integer or
  floating, it returns whether the number differs from zero; for a value of any other type
  (null, array, object) it returns the default it was given.
\<close>

theorem bool_coercion:
  assumes "isVerified d" "payload d = JObject kvs" "map_of kvs k = Some v"
  shows "getValueAsBool d (Some k) defaultValue =
     (case v of
        JBool b \<Rightarrow> b
      | JString str \<Rightarrow> str = ''true'' \<or> str = ''1'' \<or> str = ''yes''
      | JInt i \<Rightarrow> i \<noteq> 0
      | JUInt n \<Rightarrow> n \<noteq> 0
      | JFloat r \<Rightarrow> r \<noteq> 0
      | _ \<Rightarrow> defaultValue)"
  using assms by (cases v) (simp_all add: getValueAsBool_def)

theorem bool_coercion_witness:
  "getValueAsBool sample_decoder (Some ''a'') False
   \<and> \<not> getValueAsBool sample_decoder (Some ''b'') True
   \<and> \<not> getValueAsBool sample_decoder (Some ''c'') True
   \<and> getValueAsBool sample_decoder (Some ''d'') False
   \<and> getValueAsBool sample_decoder (Some ''e'') True
   \<and> \<not> getValueAsBool sample_decoder (Some ''f'') True"
proof -
  let ?kvs = "[(''a'', JString ''yes''), (''b'', JString ''TRUE''), (''c'', JInt 0),
               (''d'', JFloat (1 / 2)), (''e'', JNull), (''f'', JBool False)]"
  have v: "isVerified sample_decoder" and p: "payload sample_decoder = JObject ?kvs"
    by (simp_all add: sample_decoder_def)
  note r = bool_coercion [OF v p]
  have "getValueAsBool sample_decoder (Some ''a'') False"
    using r [of "''a''" "JString ''yes''" False] by simp
  moreover have "\<not> getValueAsBool sample_decoder (Some ''b'') True"
    using r [of "''b''" "JString ''TRUE''" True] by simp
  moreover have "\<not> getValueAsBool sample_decoder (Some ''c'') True"
    using r [of "''c''" "JInt 0" True] by simp
  moreover have "getValueAsBool sample_decoder (Some ''d'') False"
    using r [of "''d''" "JFloat (1 / 2)" False] by simp
  moreover have "getValueAsBool sample_decoder (Some ''e'') True"
    using r [of "''e''" JNull True] by simp
  moreover have "\<not> getValueAsBool sample_decoder (Some ''f'') True"
    using r [of "''f''" "JBool False" True] by simp
  ultimately show ?thesis by blast
qed

subsection \<open>C10: an expiry that is not strictly positive\<close>

text \<open>
  Claim C10. Take a call of \<open>verify\<close> that reaches the expiry step with a payload whose
  string field \<open>expiry\<close> the date parser turns into a value less than or equal to 0. Whatever
  the current time is, \<open>verify\<close> returns \<open>Valid\<close> and leaves the decoder verified; and
  \<open>getValueAsDateTime\<close> on that field returns the default it was given. More generally, on
  every verified decoder \<open>getValueAsDateTime\<close> returns the default for a string value that the
  parser turns into a value that is not strictly positive.
\<close>

theorem nonpositive_expiry:
  assumes "base64_decode P mk = Some K" "length K = 32"
    and "base64_decode P lic = Some bin" "48 \<le> length bin"
    and "hmac_sha256 P K (take 16 bin @ drop 48 bin @ map byte_of_char acc)
           = Some (take 32 (drop 16 bin))"
    and "aes_cbc_decrypt P K (take 16 bin) (drop 48 bin) = Some plain"
    and "json_parse P plain = Some j"
    and "json_contains j ''expiry''" "json_at j ''expiry'' = JString s"
    and "sint (parseISODateTime s) \<le> 0"
  shows "verify_status (P\<lparr>time_now := t\<rparr>) d (Some mk) (Some lic) (Some acc) = Valid
       \<and> isVerified (verify_decoder (P\<lparr>time_now := t\<rparr>) d (Some mk) (Some lic) (Some acc))
       \<and> getValueAsDateTime
            (verify_decoder (P\<lparr>time_now := t\<rparr>) d (Some mk) (Some lic) (Some acc))
            (Some ''expiry'') defaultValue = defaultValue
       \<and> (isVerified d' \<and> json_contains (payload d') k \<and> json_at (payload d') k = JString s'
            \<and> sint (parseISODateTime s') \<le> 0 \<longrightarrow>
          getValueAsDateTime d' (Some k) defaultValue = defaultValue)"
proof -
  have np: "\<not> expiry_passed (P\<lparr>time_now := t\<rparr>) j"
    using assms(9,10) by (simp add: expiry_passed_def word_sless_alt)
  note st = verify_expiry_step [OF assms(1-7), of t d]
  have a: "verify_status (P\<lparr>time_now := t\<rparr>) d (Some mk) (Some lic) (Some acc) = Valid"
    using np by (simp add: st(1))
  have b: "isVerified (verify_decoder (P\<lparr>time_now := t\<rparr>) d (Some mk) (Some lic) (Some acc))"
    using np by (simp add: st(2))
  have gen: "getValueAsDateTime d' (Some k) defaultValue = defaultValue"
    if "isVerified d'" "json_contains (payload d') k" "json_at (payload d') k = JString s'"
      "sint (parseISODateTime s') \<le> 0" for d' k s'
    using that by (simp add: getValueAsDateTime_def word_sless_alt)
  have c: "getValueAsDateTime
            (verify_decoder (P\<lparr>time_now := t\<rparr>) d (Some mk) (Some lic) (Some acc))
            (Some ''expiry'') defaultValue = defaultValue"
    using b assms(8,9,10) by (intro gen [of _ _ s]) (simp_all add: st(2))
  from a b c gen show ?thesis by blast
qed

theorem nonpositive_expiry_witness:
  "verify_status (recorded_platform 1793318400) Create
     (Some key0_b64) (Some licenseC_b64) (Some ''1234'') = Valid
   \<and> getValueAsDateTime (verify_decoder (recorded_platform 1793318400) Create
       (Some key0_b64) (Some licenseC_b64) (Some ''1234'')) (Some ''expiry'') 42 = 42"
proof -
  have le: "sint (parseISODateTime ''1970-01-01T00:00:00Z'') \<le> 0"
    by (simp add: recorded_dates(2))
  from nonpositive_expiry [OF recorded_key0(1) [of 0] recorded_key0(2)
      recorded_licenseC [of 0] recorded_runC(1) recorded_runC(2-4) [of 0] recorded_payloads(3,4) le,
      where t = 1793318400 and d = Create and defaultValue = 42, unfolded recorded_time]
  show ?thesis by blast
qed

end
